theory Spec2Isabelle
  imports Complex_Main "HOL-Library.Multiset"
begin

section \<open>Python strings\<close>

text \<open>
  File names and file contents are Python \<open>str\<close> values. They are modelled as
  \<open>string\<close>, one \<open>char\<close> per character, which covers ASCII text: case
  conversion, \<open>\s\<close> and \<open>\w\<close> below are the ASCII parts of the Python operations.
\<close>

definition sq :: char where
  "sq = CHR 0x27"

definition dq :: char where
  "dq = CHR 0x22"

definition nl :: char where
  "nl = CHR 0x0A"

definition bslash :: char where
  "bslash = CHR 0x5C"

definition lower_char :: "char \<Rightarrow> char" where
  "lower_char c = (let n = (of_char c :: nat) in if 65 \<le> n \<and> n \<le> 90 then char_of (n + 32) else c)"

definition upper_char :: "char \<Rightarrow> char" where
  "upper_char c = (let n = (of_char c :: nat) in if 97 \<le> n \<and> n \<le> 122 then char_of (n - 32) else c)"

text \<open>\<open>s.lower()\<close> and \<open>s.upper()\<close>.\<close>

definition lower :: "string \<Rightarrow> string" where
  "lower s = map lower_char s"

definition upper :: "string \<Rightarrow> string" where
  "upper s = map upper_char s"

fun startswith :: "string \<Rightarrow> string \<Rightarrow> bool" where
  "startswith [] s = True"
| "startswith (p # ps) [] = False"
| "startswith (p # ps) (c # cs) = (p = c \<and> startswith ps cs)"

text \<open>\<open>sub in s\<close> on strings: \<open>sub\<close> occurs somewhere in \<open>s\<close>.\<close>

fun py_in :: "string \<Rightarrow> string \<Rightarrow> bool" where
  "py_in sub [] = (sub = [])"
| "py_in sub (c # cs) = (startswith sub (c # cs) \<or> py_in sub cs)"

text \<open>\<open>s.split(sep)\<close> for a one-character separator: never the empty list.\<close>

fun split_on :: "char \<Rightarrow> string \<Rightarrow> string list" where
  "split_on sep [] = [[]]"
| "split_on sep (c # cs) =
     (if c = sep then [] # split_on sep cs
      else (case split_on sep cs of [] \<Rightarrow> [[c]] | l # ls \<Rightarrow> (c # l) # ls))"

text \<open>\<open>sep.join(xs)\<close>.\<close>

fun join :: "string \<Rightarrow> string list \<Rightarrow> string" where
  "join sep [] = []"
| "join sep [x] = x"
| "join sep (x # y # ys) = x @ sep @ join sep (y # ys)"

text \<open>\<open>str(n)\<close> for a non-negative integer: its decimal digits.\<close>

definition digit_char :: "nat \<Rightarrow> char" where
  "digit_char d = char_of (48 + d)"

fun str_nat :: "nat \<Rightarrow> string" where
  "str_nat n = (if n < 10 then [digit_char n] else str_nat (n div 10) @ [digit_char (n mod 10)])"

text \<open>An f-string field holding an optional string: \<open>None\<close> prints as \<open>None\<close>.\<close>

definition str_opt :: "string option \<Rightarrow> string" where
  "str_opt v = (case v of None \<Rightarrow> ''None'' | Some s \<Rightarrow> s)"

section \<open>Python sets and insertion-ordered dictionaries\<close>

text \<open>
  A \<open>set\<close> of strings is modelled by the duplicate-free list of its elements in the order
  they were added. Python iterates over a set in the order of its hash table, and string
  hashes change from one process to the next, so \<open>list(s)\<close> is the result of a function
  \<open>ord\<close> of the run, applied to that list; all that is known of \<open>ord\<close> is that it
  returns the elements of the set, each once.
\<close>

type_synonym pyset = "string list"

type_synonym set_order = "string list \<Rightarrow> string list"

definition set_order_ok :: "set_order \<Rightarrow> bool" where
  "set_order_ok ord = (\<forall>xs. distinct xs \<longrightarrow> set (ord xs) = set xs \<and> distinct (ord xs))"

definition set_add :: "string \<Rightarrow> pyset \<Rightarrow> pyset" where
  "set_add x s = (if x \<in> set s then s else s @ [x])"

text \<open>\<open>set(xs)\<close> of a list.\<close>

definition set_of_list :: "string list \<Rightarrow> pyset" where
  "set_of_list xs = foldl (\<lambda>s x. set_add x s) [] xs"

text \<open>\<open>s.intersection(t)\<close>.\<close>

definition intersection :: "pyset \<Rightarrow> pyset \<Rightarrow> pyset" where
  "intersection s t = filter (\<lambda>x. x \<in> set t) s"

text \<open>
  A \<open>dict\<close> from strings to counts keeps its keys in insertion order: an association
  list with distinct keys.
\<close>

type_synonym histogram = "(string \<times> nat) list"

text \<open>\<open>d.get(k, 0)\<close> and \<open>d[k] = v\<close>.\<close>

definition dict_get :: "histogram \<Rightarrow> string \<Rightarrow> nat" where
  "dict_get d k = (case map_of d k of None \<Rightarrow> 0 | Some v \<Rightarrow> v)"

fun dict_set :: "histogram \<Rightarrow> string \<Rightarrow> nat \<Rightarrow> histogram" where
  "dict_set [] k v = [(k, v)]"
| "dict_set ((k', v') # d) k v = (if k' = k then (k, v) # d else (k', v') # dict_set d k v)"

definition dict_keys :: "histogram \<Rightarrow> string list" where
  "dict_keys d = map fst d"

text \<open>
  \<open>max(d, key=d.get)\<close> on a non-empty dictionary: the keys are visited in insertion
  order and a later key replaces the current one only when its count is strictly greater.
\<close>

fun max_from :: "string \<times> nat \<Rightarrow> histogram \<Rightarrow> string" where
  "max_from (k, v) [] = k"
| "max_from (k, v) ((k', v') # d) = (if v < v' then max_from (k', v') d else max_from (k, v) d)"

definition max_key :: "histogram \<Rightarrow> string option" where
  "max_key d = (case d of [] \<Rightarrow> None | kv # rest \<Rightarrow> Some (max_from kv rest))"

section \<open>Regular expressions\<close>

text \<open>
  The patterns of the analyzer use literals, character classes, \<open>.\<close>, \<open>\s\<close>, \<open>\w\<close>,
  greedy \<open>*\<close> and \<open>+\<close> on a single character class, \<open>?\<close>, alternation, capturing
  groups and \<open>$\<close>. The matcher is the backtracking matcher of Python's \<open>re\<close>: it returns
  every way to match a prefix of the text, in the order \<open>re\<close> tries them, each as the
  captured groups and the text left over.
\<close>

datatype atom = Lit char | Dot | Cls "char list" | NCls "char list" | WS | Word

datatype regex =
    Eps
  | Atom atom
  | Then regex regex
  | Or regex regex
  | Star atom
  | Plus atom
  | Opt regex
  | Group regex
  | Eol

definition is_space :: "char \<Rightarrow> bool" where
  "is_space c = (let n = (of_char c :: nat) in (9 \<le> n \<and> n \<le> 13) \<or> (28 \<le> n \<and> n \<le> 32))"

definition is_word :: "char \<Rightarrow> bool" where
  "is_word c = (let n = (of_char c :: nat) in
     (48 \<le> n \<and> n \<le> 57) \<or> (65 \<le> n \<and> n \<le> 90) \<or> (97 \<le> n \<and> n \<le> 122) \<or> n = 95)"

definition in_class :: "bool \<Rightarrow> char list \<Rightarrow> char \<Rightarrow> bool" where
  "in_class ic cs x = (x \<in> set cs \<or> (ic \<and> (lower_char x \<in> set cs \<or> upper_char x \<in> set cs)))"

text \<open>The first argument is the flag \<open>re.IGNORECASE\<close>.\<close>

fun atom_ok :: "bool \<Rightarrow> atom \<Rightarrow> char \<Rightarrow> bool" where
  "atom_ok ic (Lit c) x = (if ic then lower_char x = lower_char c else x = c)"
| "atom_ok ic Dot x = (x \<noteq> nl)"
| "atom_ok ic (Cls cs) x = in_class ic cs x"
| "atom_ok ic (NCls cs) x = (\<not> in_class ic cs x)"
| "atom_ok ic WS x = is_space x"
| "atom_ok ic Word x = is_word x"

text \<open>Greedy repetition of one atom: the texts left over, the longest match first.\<close>

fun star_rests :: "bool \<Rightarrow> atom \<Rightarrow> string \<Rightarrow> string list" where
  "star_rests ic a [] = [[]]"
| "star_rests ic a (x # xs) = (if atom_ok ic a x then star_rests ic a xs @ [x # xs] else [x # xs])"

fun rmatch :: "bool \<Rightarrow> regex \<Rightarrow> string \<Rightarrow> (string list \<times> string) list" where
  "rmatch ic Eps s = [([], s)]"
| "rmatch ic (Atom a) s = (case s of [] \<Rightarrow> [] | x # xs \<Rightarrow> if atom_ok ic a x then [([], xs)] else [])"
| "rmatch ic (Then r1 r2) s =
     concat (map (\<lambda>(g1, s1). map (\<lambda>(g2, s2). (g1 @ g2, s2)) (rmatch ic r2 s1)) (rmatch ic r1 s))"
| "rmatch ic (Or r1 r2) s = rmatch ic r1 s @ rmatch ic r2 s"
| "rmatch ic (Star a) s = map (\<lambda>t. ([], t)) (star_rests ic a s)"
| "rmatch ic (Plus a) s =
     (case s of [] \<Rightarrow> [] | x # xs \<Rightarrow> if atom_ok ic a x then map (\<lambda>t. ([], t)) (star_rests ic a xs) else [])"
| "rmatch ic (Opt r) s = rmatch ic r s @ [([], s)]"
| "rmatch ic (Group r) s =
     map (\<lambda>(g, t). (take (length s - length t) s # g, t)) (rmatch ic r s)"
| "rmatch ic Eol s = (if s = [] \<or> s = [nl] then [([], s)] else [])"

text \<open>\<open>re.search(pattern, text)\<close> as a truth value: some position of the text matches.\<close>

fun re_search :: "bool \<Rightarrow> regex \<Rightarrow> string \<Rightarrow> bool" where
  "re_search ic r [] = (rmatch ic r [] \<noteq> [])"
| "re_search ic r (c # cs) = (rmatch ic r (c # cs) \<noteq> [] \<or> re_search ic r cs)"

text \<open>
  \<open>re.findall(pattern, text)\<close>: the groups of the successive non-overlapping matches,
  left to right. The counter is the number of characters of the text still covered by
  the match found last.
\<close>

fun findall_from :: "bool \<Rightarrow> regex \<Rightarrow> nat \<Rightarrow> string \<Rightarrow> string list list" where
  "findall_from ic r skip [] =
     (if skip = 0 then (case rmatch ic r [] of [] \<Rightarrow> [] | (g, t) # _ \<Rightarrow> [g]) else [])"
| "findall_from ic r skip (c # cs) =
     (if 0 < skip then findall_from ic r (skip - 1) cs
      else (case rmatch ic r (c # cs) of
              [] \<Rightarrow> findall_from ic r 0 cs
            | (g, t) # _ \<Rightarrow> g # findall_from ic r (length (c # cs) - length t - 1) cs))"

definition findall :: "bool \<Rightarrow> regex \<Rightarrow> string \<Rightarrow> string list list" where
  "findall ic r s = findall_from ic r 0 s"

text \<open>A pattern that is a literal text, and the concatenation of patterns.\<close>

definition lit :: "string \<Rightarrow> regex" where
  "lit s = foldr (\<lambda>c r. Then (Atom (Lit c)) r) s Eps"

definition cat :: "regex list \<Rightarrow> regex" where
  "cat rs = foldr Then rs Eps"

definition quote :: regex where
  "quote = Atom (Cls [sq, dq])"

section \<open>The static tables of \<open>ProjectAnalyzer\<close>\<close>

definition supported_extensions :: "(string \<times> string) list" where
  "supported_extensions =
    [(''.py'', ''Python''), (''.js'', ''JavaScript''), (''.jsx'', ''React''),
     (''.ts'', ''TypeScript''), (''.tsx'', ''React TypeScript''), (''.java'', ''Java''),
     (''.cpp'', ''C++''), (''.c'', ''C''), (''.cs'', ''C#''), (''.php'', ''PHP''),
     (''.rb'', ''Ruby''), (''.go'', ''Go''), (''.rs'', ''Rust''), (''.swift'', ''Swift''),
     (''.kt'', ''Kotlin''), (''.scala'', ''Scala''), (''.html'', ''HTML''), (''.css'', ''CSS''),
     (''.scss'', ''SCSS''), (''.sass'', ''SASS''), (''.json'', ''JSON''), (''.xml'', ''XML''),
     (''.yaml'', ''YAML''), (''.yml'', ''YAML''), (''.md'', ''Markdown''), (''.txt'', ''Text'')]"

definition framework_patterns :: "(string \<times> regex list) list" where
  "framework_patterns =
    [(''React'', [cat [lit ''import'', Star Dot, lit ''react''],
                  cat [lit ''from '', quote, lit ''react'', quote],
                  lit ''React.'']),
     (''Vue'', [cat [lit ''import'', Star Dot, lit ''vue''],
                cat [lit ''from '', quote, lit ''vue'', quote],
                lit ''Vue.'']),
     (''Angular'', [lit ''@angular'',
                    cat [lit ''import'', Star Dot, lit ''@angular''],
                    lit ''ng-'']),
     (''Express'', [lit ''express()'',
                    cat [lit ''require('', quote, lit ''express'', quote],
                    cat [lit ''import'', Star Dot, lit ''express'']]),
     (''Django'', [lit ''from django'', lit ''import django'', lit ''django.'']),
     (''Flask'', [lit ''from flask'', lit ''import flask'', lit ''Flask('']),
     (''FastAPI'', [lit ''from fastapi'', lit ''import fastapi'', lit ''FastAPI('']),
     (''Spring'', [lit ''@SpringBootApplication'',
                   cat [lit ''import'', Star Dot, lit ''springframework''],
                   lit ''@RestController'']),
     (''Laravel'', [lit ''use Illuminate'',
                    cat [lit ''Illuminate'', Atom (Lit bslash)],
                    cat [Opt (Atom (Lit CHR ''<'')), lit ''php'', Star Dot, lit ''laravel'']]),
     (''Rails'', [cat [lit ''require '', quote, lit ''rails'', quote],
                  lit ''Rails.'',
                  cat [lit ''class'', Star Dot, lit ''< ApplicationController'']])]"

definition database_patterns :: "(string \<times> regex list) list" where
  "database_patterns =
    [(''MongoDB'', [lit ''mongoose'', lit ''mongodb://'', lit ''MongoClient'', lit ''from pymongo'']),
     (''PostgreSQL'', [lit ''postgresql://'', lit ''psycopg2'', lit ''pg_'', lit ''PostgreSQL'']),
     (''MySQL'', [lit ''mysql://'', lit ''pymysql'', lit ''mysql2'', lit ''MySQL'']),
     (''SQLite'', [lit ''sqlite3'', cat [lit ''.db'', Eol], lit ''sqlite://'']),
     (''Redis'', [lit ''redis://'', lit ''import redis'', lit ''Redis('']),
     (''Firebase'', [lit ''firebase'', lit ''firestore'', lit ''Firebase''])]"

section \<open>Files and their language\<close>

text \<open>
  A file is a dictionary with the keys \<open>name\<close>, \<open>content\<close> and \<open>type\<close>. The
  analyzer never reads \<open>type\<close>, which is left out.
\<close>

record file_info =
  name :: string
  content :: string

text \<open>
  \<open>Path(filename).suffix\<close> on a POSIX path: the final component of the path (empty
  components and \<open>.\<close> are dropped), from its last dot on, when that dot is neither the
  first nor the last character of the component.
\<close>

definition path_name :: "string \<Rightarrow> string" where
  "path_name p =
     (case rev (filter (\<lambda>c. c \<noteq> [] \<and> c \<noteq> ''.'') (split_on CHR ''/'' p)) of
        [] \<Rightarrow> [] | c # _ \<Rightarrow> c)"

definition suffix :: "string \<Rightarrow> string" where
  "suffix p =
     (let nm = path_name p;
          ext = rev (takeWhile (\<lambda>c. c \<noteq> CHR ''.'') (rev nm))
      in if CHR ''.'' \<in> set nm \<and> 0 < length nm - length ext - 1 \<and> ext \<noteq> []
         then CHR ''.'' # ext else [])"

text \<open>\<open>supported_extensions.get(ext, 'Unknown')\<close> of the lower-cased suffix.\<close>

definition language_of :: "string \<Rightarrow> string" where
  "language_of filename =
     (case map_of supported_extensions (lower (suffix filename)) of
        None \<Rightarrow> ''Unknown'' | Some l \<Rightarrow> l)"

text \<open>\<open>len(content.split('\n'))\<close>.\<close>

definition line_count :: "string \<Rightarrow> nat" where
  "line_count c = length (split_on nl c)"

section \<open>The scan of \<open>analyze_files\<close>\<close>

record scan_state =
  st_languages :: histogram
  st_frameworks :: pyset
  st_databases :: pyset
  st_file_structure :: "string list"
  st_total_lines :: nat

definition init_state :: scan_state where
  "init_state = \<lparr>st_languages = [], st_frameworks = [], st_databases = [],
                  st_file_structure = [], st_total_lines = 0\<rparr>"

text \<open>
  The two inner loops over a pattern table: a technology is added when one of its
  patterns is found in the content, ignoring case.
\<close>

definition matches_any :: "regex list \<Rightarrow> string \<Rightarrow> bool" where
  "matches_any patterns c = list_ex (\<lambda>pattern. re_search True pattern c) patterns"

definition detect :: "(string \<times> regex list) list \<Rightarrow> string \<Rightarrow> pyset \<Rightarrow> pyset" where
  "detect table c s =
     foldl (\<lambda>acc (tech, patterns). if matches_any patterns c then set_add tech acc else acc) s table"

definition structure_line :: "string \<Rightarrow> string \<Rightarrow> nat \<Rightarrow> string" where
  "structure_line filename language lines =
     filename @ '' ('' @ language @ '', '' @ str_nat lines @ '' lines)''"

text \<open>The body of the loop over the files, for one file.\<close>

definition scan_file :: "scan_state \<Rightarrow> file_info \<Rightarrow> scan_state" where
  "scan_file st file_info =
     (let filename = name file_info;
          c = content file_info;
          language = language_of filename;
          languages = (if language \<noteq> ''Unknown''
                       then dict_set (st_languages st) language (dict_get (st_languages st) language + 1)
                       else st_languages st);
          lines = line_count c
      in \<lparr>st_languages = languages,
          st_frameworks = detect framework_patterns c (st_frameworks st),
          st_databases = detect database_patterns c (st_databases st),
          st_file_structure = st_file_structure st @ [structure_line filename language lines],
          st_total_lines = st_total_lines st + lines\<rparr>)"

fun scan_files :: "scan_state \<Rightarrow> file_info list \<Rightarrow> scan_state" where
  "scan_files st [] = st"
| "scan_files st (file_info # rest) = scan_files (scan_file st file_info) rest"

section \<open>Architecture and complexity\<close>

definition frontend_frameworks :: pyset where
  "frontend_frameworks = [''React'', ''Vue'', ''Angular'']"

definition backend_frameworks :: pyset where
  "backend_frameworks = [''Express'', ''Django'', ''Flask'', ''FastAPI'', ''Spring'', ''Laravel'', ''Rails'']"

definition determine_architecture :: "pyset \<Rightarrow> histogram \<Rightarrow> string" where
  "determine_architecture frameworks languages =
     (let has_frontend = (intersection frontend_frameworks frameworks \<noteq> []);
          has_backend = (intersection backend_frameworks frameworks \<noteq> [])
      in if has_frontend \<and> has_backend then ''Full-stack''
         else if has_frontend then ''Frontend''
         else if has_backend then ''Backend''
         else if ''HTML'' \<in> set (dict_keys languages) \<and> ''CSS'' \<in> set (dict_keys languages)
              then ''Static Website''
         else ''Unknown'')"

text \<open>
  \<open>min(total_lines / 1000.0, 10.0)\<close> is computed on floats. The function \<open>fl\<close> stands
  for rounding a real number to the nearest float: the integer is converted to a float,
  and the quotient is rounded again. The constants 1000.0 and 10.0 are floats as they are.
\<close>

type_synonym rounding = "real \<Rightarrow> real"

definition rounding_ok :: "rounding \<Rightarrow> bool" where
  "rounding_ok fl = (mono fl \<and> fl 0 = 0 \<and> fl 10 = 10 \<and> fl 10000 = 10000)"

definition complexity :: "rounding \<Rightarrow> nat \<Rightarrow> real" where
  "complexity fl total_lines = min (fl (fl (real total_lines) / 1000)) 10"

section \<open>The extractors of the aspect analyzers\<close>

definition letters :: "char list" where
  "letters = ''abcdefghijklmnopqrstuvwxyzABCDEFGHIJKLMNOPQRSTUVWXYZ''"

definition digits :: "char list" where
  "digits = ''0123456789''"

text \<open>The first group of a match; every pattern below that uses it has one group.\<close>

definition group1 :: "string list \<Rightarrow> string" where
  "group1 g = (case g of [] \<Rightarrow> [] | x # _ \<Rightarrow> x)"

definition findall1 :: "bool \<Rightarrow> regex \<Rightarrow> string \<Rightarrow> string list" where
  "findall1 ic r s = map group1 (findall ic r s)"

definition export_patterns :: "regex list" where
  "export_patterns =
    [cat [lit ''export'', Plus WS, Opt (cat [lit ''default'', Plus WS]),
          Opt (cat [lit ''function'', Plus WS]), Group (Plus Word)],
     cat [lit ''export'', Star WS, lit ''{'', Star WS, Group (Plus (NCls ''}'')), Star WS, lit ''}'']]"

definition extract_exports :: "string \<Rightarrow> string list" where
  "extract_exports c = concat (map (\<lambda>pattern. findall1 False pattern c) export_patterns)"

definition import_patterns :: "regex list" where
  "import_patterns =
    [cat [lit ''import'', Plus WS, Star Dot, lit ''from'', Plus WS, quote,
          Group (Plus (NCls [sq, dq])), quote],
     cat [lit ''require('', quote, Group (Plus (NCls [sq, dq])), quote, lit '')'']]"

definition extract_imports :: "string \<Rightarrow> string list" where
  "extract_imports c = concat (map (\<lambda>pattern. findall1 False pattern c) import_patterns)"

definition css_class_pattern :: regex where
  "css_class_pattern =
     cat [lit ''.'', Group (cat [Atom (Cls (letters @ ''_-'')), Star (Cls (letters @ digits @ ''_-''))])]"

definition extract_css_classes :: "set_order \<Rightarrow> string \<Rightarrow> string list" where
  "extract_css_classes ord c = ord (set_of_list (findall1 False css_class_pattern c))"

datatype endpoint = Endpoint (ep_method: string) (ep_path: string)

definition http_method :: regex where
  "http_method = Group (Or (lit ''get'') (Or (lit ''post'') (Or (lit ''put'') (Or (lit ''delete'') (lit ''patch'')))))"

definition endpoint_patterns :: "regex list" where
  "endpoint_patterns =
    [cat [lit ''@app.'', http_method, lit ''('', quote, Group (Plus (NCls [sq, dq])), quote],
     cat [lit ''@router.'', http_method, lit ''('', quote, Group (Plus (NCls [sq, dq])), quote],
     cat [lit ''app.'', http_method, lit ''('', quote, Group (Plus (NCls [sq, dq])), quote]]"

text \<open>Each match of an endpoint pattern has two groups, the method and the path.\<close>

definition endpoint_of :: "string list \<Rightarrow> endpoint list" where
  "endpoint_of g = (case g of m # p # _ \<Rightarrow> [Endpoint (upper m) p] | _ \<Rightarrow> [])"

definition extract_api_endpoints :: "string \<Rightarrow> endpoint list" where
  "extract_api_endpoints c =
     concat (map (\<lambda>pattern. concat (map endpoint_of (findall True pattern c))) endpoint_patterns)"

definition extract_models :: "string \<Rightarrow> string list" where
  "extract_models c = findall1 False (cat [lit ''class'', Plus WS, Group (Plus Word)]) c"

definition extract_sql_tables :: "string \<Rightarrow> string list" where
  "extract_sql_tables c =
     findall1 True (cat [lit ''CREATE'', Plus WS, lit ''TABLE'', Plus WS,
                         Opt (cat [lit ''IF'', Plus WS, lit ''NOT'', Plus WS, lit ''EXISTS'', Plus WS]),
                         Group (Plus Word)]) c"

definition contains_any :: "string list \<Rightarrow> string \<Rightarrow> bool" where
  "contains_any keys s = list_ex (\<lambda>key. py_in key s) keys"

definition identify_file_purpose :: "string \<Rightarrow> string \<Rightarrow> string" where
  "identify_file_purpose filename c =
     (let filename_lower = lower filename
      in if py_in ''package.json'' filename_lower then ''Node.js package configuration''
         else if py_in ''requirements.txt'' filename_lower then ''Python dependencies''
         else if py_in ''main'' filename_lower then ''Application entry point''
         else if py_in ''index'' filename_lower then ''Index/entry file''
         else if py_in ''app'' filename_lower then ''Main application file''
         else if py_in ''config'' filename_lower then ''Configuration file''
         else ''Source file'')"

definition determine_project_type :: "pyset \<Rightarrow> histogram \<Rightarrow> string" where
  "determine_project_type frameworks languages =
     (if intersection frameworks [''React'', ''Vue'', ''Angular''] \<noteq> [] then ''Frontend Application''
      else if intersection frameworks [''Django'', ''Flask'', ''FastAPI'', ''Express''] \<noteq> [] then ''Backend API''
      else if ''HTML'' \<in> set (dict_keys languages) \<and> ''CSS'' \<in> set (dict_keys languages)
           then ''Web Application''
      else ''Software Project'')"

record complexity_indicators =
  total_files :: nat
  total_lines :: nat
  avg_lines_per_file :: nat
  complexity_level :: string

definition get_complexity_indicators :: "file_info list \<Rightarrow> complexity_indicators" where
  "get_complexity_indicators files =
     (let n = length files;
          t = sum_list (map (\<lambda>f. line_count (content f)) files)
      in \<lparr>total_files = n, total_lines = t,
          avg_lines_per_file = (if 0 < n then t div n else 0),
          complexity_level = (if t < 1000 then ''Low'' else if t < 5000 then ''Medium'' else ''High'')\<rparr>)"

definition analyze_data_flow :: "set_order \<Rightarrow> file_info list \<Rightarrow> string list" where
  "analyze_data_flow ord files =
     ord (set_of_list (concat (map (\<lambda>f.
        (if py_in ''fetch('' (content f) \<or> py_in ''axios'' (content f) then [''HTTP API calls''] else []) @
        (if py_in ''useState'' (content f) \<or> py_in ''state'' (content f) then [''State management''] else []) @
        (if py_in ''props'' (content f) then [''Component props''] else [])) files)))"

definition analyze_request_flow :: "set_order \<Rightarrow> file_info list \<Rightarrow> string list" where
  "analyze_request_flow ord files =
     ord (set_of_list (concat (map (\<lambda>f.
        (if py_in ''@app.route'' (content f) \<or> py_in ''@router'' (content f) then [''Route handling''] else []) @
        (if py_in ''middleware'' (lower (content f)) then [''Middleware processing''] else []) @
        (if py_in ''authenticate'' (lower (content f)) \<or> py_in ''auth'' (lower (content f))
         then [''Authentication''] else [])) files)))"

record component_hierarchy =
  total_components :: nat
  component_files :: "string list"

definition analyze_component_hierarchy :: "file_info list \<Rightarrow> component_hierarchy" where
  "analyze_component_hierarchy files =
     (let components = map name (filter (\<lambda>f. contains_any [''.jsx'', ''.tsx'', ''.vue''] (name f)) files)
      in \<lparr>total_components = length components, component_files = take 10 components\<rparr>)"

section \<open>The aspect analyzers\<close>

datatype key_file = KeyFile (kf_name: string) (purpose: string) (lines: nat)

record overview =
  key_files :: "key_file list"
  entry_points :: "string list"
  project_type :: string
  complexity_indicators :: complexity_indicators

definition analyze_overview :: "file_info list \<Rightarrow> histogram \<Rightarrow> pyset \<Rightarrow> pyset \<Rightarrow> overview" where
  "analyze_overview files languages frameworks databases =
     \<lparr>key_files =
        map (\<lambda>f. KeyFile (name f) (identify_file_purpose (name f) (content f)) (line_count (content f)))
          (filter (\<lambda>f. contains_any [''main'', ''index'', ''app'', ''server'', ''package.json'',
                                        ''requirements.txt''] (lower (name f))) files),
      entry_points =
        map name (filter (\<lambda>f. py_in ''main('' (content f) \<or> py_in ''if __name__'' (content f)
                                \<or> py_in ''app.listen'' (content f)) files),
      project_type = determine_project_type frameworks languages,
      complexity_indicators = get_complexity_indicators files\<rparr>"

datatype component = Component (c_name: string) (c_type: string) (c_exports: "string list") (c_imports: "string list")

datatype style = Style (s_name: string) (s_type: string) (classes: "string list")

record frontend =
  components :: "component list"
  styles :: "style list"
  routing_files :: "string list"
  state_management :: "string list"
  fe_frameworks_used :: "string list"

definition analyze_frontend :: "set_order \<Rightarrow> file_info list \<Rightarrow> pyset \<Rightarrow> frontend" where
  "analyze_frontend ord frontend_files frameworks =
     \<lparr>components =
        map (\<lambda>f. Component (name f) ''Component'' (extract_exports (content f)) (extract_imports (content f)))
          (filter (\<lambda>f. contains_any [''.jsx'', ''.tsx'', ''.vue''] (name f)) frontend_files),
      styles =
        map (\<lambda>f. Style (name f) ''Stylesheet'' (extract_css_classes ord (content f)))
          (filter (\<lambda>f. contains_any [''.css'', ''.scss'', ''.sass''] (name f)) frontend_files),
      routing_files =
        map name (filter (\<lambda>f. py_in ''router'' (lower (content f)) \<or> py_in ''route'' (lower (content f)))
                    frontend_files),
      state_management =
        map name (filter (\<lambda>f. contains_any [''usestate'', ''redux'', ''vuex'', ''context''] (lower (content f)))
                    frontend_files),
      fe_frameworks_used = ord (intersection frameworks [''React'', ''Vue'', ''Angular''])\<rparr>"

datatype api_file = ApiFile (a_file: string) (endpoints: "endpoint list")

datatype model_file = ModelFile (m_file: string) (models: "string list")

record backend =
  api_files :: "api_file list"
  be_models :: "model_file list"
  middleware :: "string list"
  be_frameworks_used :: "string list"
  databases_used :: "string list"

definition analyze_backend :: "set_order \<Rightarrow> file_info list \<Rightarrow> pyset \<Rightarrow> pyset \<Rightarrow> backend" where
  "analyze_backend ord backend_files frameworks databases =
     \<lparr>api_files =
        map (\<lambda>f. ApiFile (name f) (extract_api_endpoints (content f)))
          (filter (\<lambda>f. extract_api_endpoints (content f) \<noteq> []) backend_files),
      be_models =
        map (\<lambda>f. ModelFile (name f) (extract_models (content f)))
          (filter (\<lambda>f. py_in ''model'' (lower (name f)) \<or> py_in ''schema'' (lower (name f))) backend_files),
      middleware =
        map name (filter (\<lambda>f. py_in ''middleware'' (lower (content f)) \<or> py_in ''@app.middleware'' (content f))
                    backend_files),
      be_frameworks_used =
        ord (intersection frameworks [''Django'', ''Flask'', ''FastAPI'', ''Express'', ''Spring'']),
      databases_used = ord databases\<rparr>"

datatype schema = Schema (sch_file: string) (tables: "string list")

record database =
  schemas :: "schema list"
  migrations :: "string list"
  databases_detected :: "string list"

definition analyze_database :: "set_order \<Rightarrow> file_info list \<Rightarrow> pyset \<Rightarrow> database" where
  "analyze_database ord database_files databases =
     \<lparr>schemas =
        map (\<lambda>f. Schema (name f) (extract_sql_tables (content f)))
          (filter (\<lambda>f. py_in ''.sql'' (name f)) database_files),
      migrations = map name (filter (\<lambda>f. py_in ''migration'' (lower (name f))) database_files),
      databases_detected = ord databases\<rparr>"

record architecture =
  patterns :: "string list"
  layers :: "string list"
  separation_of_concerns :: bool

definition layer_of :: "file_info \<Rightarrow> string list" where
  "layer_of f =
     (let filename = lower (name f)
      in if py_in ''controller'' filename then [''Controller Layer'']
         else if py_in ''service'' filename then [''Service Layer'']
         else if py_in ''model'' filename \<or> py_in ''entity'' filename then [''Data Layer'']
         else [])"

definition analyze_architecture :: "set_order \<Rightarrow> file_info list \<Rightarrow> pyset \<Rightarrow> histogram \<Rightarrow> architecture" where
  "analyze_architecture ord files frameworks languages =
     (let patterns =
            (if list_ex (\<lambda>f. py_in ''controller'' (lower (name f))) files then [''MVC''] else []) @
            (if list_ex (\<lambda>f. py_in ''service'' (lower (name f))) files then [''Service Layer''] else []) @
            (if list_ex (\<lambda>f. py_in ''repository'' (lower (name f))) files then [''Repository Pattern''] else []);
          layers = concat (map layer_of files)
      in \<lparr>patterns = ord (set_of_list patterns),
          layers = ord (set_of_list layers),
          separation_of_concerns = (1 < length (set_of_list layers))\<rparr>)"

record flow =
  data_flow :: "string list"
  request_flow :: "string list"
  component_hierarchy :: component_hierarchy

definition analyze_flow :: "set_order \<Rightarrow> file_info list \<Rightarrow> pyset \<Rightarrow> flow" where
  "analyze_flow ord files frameworks =
     \<lparr>data_flow = analyze_data_flow ord files,
      request_flow = analyze_request_flow ord files,
      component_hierarchy = analyze_component_hierarchy files\<rparr>"

section \<open>The buckets of \<open>_generate_detailed_analysis\<close>\<close>

record buckets =
  frontend_files :: "file_info list"
  backend_files :: "file_info list"
  database_files :: "file_info list"
  config_files :: "file_info list"

definition is_frontend_file :: "string \<Rightarrow> bool" where
  "is_frontend_file filename = contains_any [''.jsx'', ''.tsx'', ''.vue'', ''.html'', ''.css'', ''.scss''] filename"

definition is_backend_file :: "string \<Rightarrow> bool" where
  "is_backend_file filename = contains_any [''.py'', ''.java'', ''.php'', ''.rb'', ''.go'', ''.cs''] filename"

definition is_database_file :: "string \<Rightarrow> bool" where
  "is_database_file filename =
     (contains_any [''.sql'', ''.db''] filename \<or> py_in ''database'' filename \<or> py_in ''model'' filename)"

definition is_config_file :: "string \<Rightarrow> bool" where
  "is_config_file filename = contains_any [''.json'', ''.yaml'', ''.yml'', ''.toml'', ''.ini'', ''.env''] filename"

definition categorize_file :: "buckets \<Rightarrow> file_info \<Rightarrow> buckets" where
  "categorize_file b file_info =
     (let filename = lower (name file_info)
      in if is_frontend_file filename then b\<lparr>frontend_files := frontend_files b @ [file_info]\<rparr>
         else if is_backend_file filename then b\<lparr>backend_files := backend_files b @ [file_info]\<rparr>
         else if is_database_file filename then b\<lparr>database_files := database_files b @ [file_info]\<rparr>
         else if is_config_file filename then b\<lparr>config_files := config_files b @ [file_info]\<rparr>
         else b)"

fun categorize :: "buckets \<Rightarrow> file_info list \<Rightarrow> buckets" where
  "categorize b [] = b"
| "categorize b (file_info # rest) = categorize (categorize_file b file_info) rest"

definition no_buckets :: buckets where
  "no_buckets = \<lparr>frontend_files = [], backend_files = [], database_files = [], config_files = []\<rparr>"

record detailed_analysis =
  da_overview :: overview
  da_frontend :: frontend
  da_backend :: backend
  da_database :: database
  da_architecture :: architecture
  da_flow :: flow

definition generate_detailed_analysis ::
  "set_order \<Rightarrow> file_info list \<Rightarrow> histogram \<Rightarrow> pyset \<Rightarrow> pyset \<Rightarrow> detailed_analysis" where
  "generate_detailed_analysis ord file_contents languages frameworks databases =
     (let b = categorize no_buckets file_contents
      in \<lparr>da_overview = analyze_overview file_contents languages frameworks databases,
          da_frontend = analyze_frontend ord (frontend_files b) frameworks,
          da_backend = analyze_backend ord (backend_files b) frameworks databases,
          da_database = analyze_database ord (database_files b) databases,
          da_architecture = analyze_architecture ord file_contents frameworks languages,
          da_flow = analyze_flow ord file_contents frameworks\<rparr>)"

section \<open>The result of an analysis\<close>

record repository =
  repo_url :: "string option"
  repo_name :: "string option"
  repo_description :: "string option"
  repo_stars :: nat
  repo_forks :: nat
  repo_language :: "string option"
  repo_topics :: "string list"

record analysis_context =
  ctx_files :: "file_info list"
  ctx_languages :: histogram
  ctx_frameworks :: "string list"
  ctx_databases :: "string list"
  ctx_total_lines :: nat
  ctx_file_count :: nat
  ctx_repository :: "repository option"

text \<open>
  The dictionary \<open>analysis_result\<close>. The values that start as \<open>None\<close> are options;
  \<open>context\<close> and \<open>detailed_analysis\<close> start as the empty dictionary, here \<open>None\<close>.
\<close>

record analysis_result =
  summary :: string
  technologies :: "string list"
  "structure" :: string
  "context" :: "analysis_context option"
  files_analyzed :: nat
  main_language :: "string option"
  framework :: "string option"
  architecture_type :: "string option"
  complexity_score :: real
  detailed_analysis :: "detailed_analysis option"

datatype exn = HTTPException nat string | AttributeError string | IndexError string

text \<open>
  \<open>arch_type.lower()\<close> raises \<open>AttributeError\<close> on \<open>None\<close>. The keys read with
  \<open>analysis.get\<close> are all present, so the defaults given there are never used.
\<close>

definition generate_summary :: "analysis_result \<Rightarrow> exn + string" where
  "generate_summary analysis =
     (case architecture_type analysis of
        None \<Rightarrow> Inl (AttributeError ''lower'')
      | Some arch_type \<Rightarrow>
          Inr (''This is a '' @ lower arch_type @ '' project primarily written in ''
                 @ str_opt (main_language analysis)
               @ (if framework analysis \<noteq> Some ''No specific framework''
                  then '' using the '' @ str_opt (framework analysis) @ '' framework'' else [])
               @ ''. The project contains '' @ str_nat (files_analyzed analysis) @ '' files''
               @ (if technologies analysis \<noteq> []
                  then '' and uses technologies including '' @ join '', '' (take 5 (technologies analysis))
                  else [])
               @ (if complexity_score analysis < 2 then ''. This appears to be a small to medium-sized project.''
                  else if complexity_score analysis < 5 then ''. This appears to be a medium-sized project.''
                  else ''. This appears to be a large and complex project.'')))"

text \<open>\<open>xs[0]\<close>.\<close>

definition first :: "string list \<Rightarrow> exn + string" where
  "first xs = (case xs of [] \<Rightarrow> Inl (IndexError ''list index out of range'') | x # _ \<Rightarrow> Inr x)"

definition initial_result :: "file_info list \<Rightarrow> analysis_result" where
  "initial_result file_contents =
     \<lparr>summary = [], technologies = [], structure = [], context = None,
      files_analyzed = length file_contents, main_language = None, framework = None,
      architecture_type = None, complexity_score = 0, detailed_analysis = None\<rparr>"

text \<open>
  \<open>ProjectAnalyzer.analyze_files\<close>. The arguments \<open>ord\<close> and \<open>fl\<close> are the iteration
  order of sets and the rounding of floats of the run.
\<close>

definition analyze_files :: "set_order \<Rightarrow> rounding \<Rightarrow> file_info list \<Rightarrow> exn + analysis_result" where
  "analyze_files ord fl file_contents =
     (let st = scan_files init_state file_contents;
          languages = st_languages st;
          frameworks = st_frameworks st;
          databases = st_databases st;
          r0 = initial_result file_contents;
          r1 = (if languages \<noteq> [] then r0\<lparr>main_language := max_key languages\<rparr> else r0)
      in case (if frameworks \<noteq> []
               then (case first (ord frameworks) of Inl e \<Rightarrow> Inl e
                                                  | Inr f \<Rightarrow> Inr (r1\<lparr>framework := Some f\<rparr>))
               else Inr r1) of
           Inl e \<Rightarrow> Inl e
         | Inr r2 \<Rightarrow>
             (let r3 = r2\<lparr>technologies :=
                           ord (set_of_list (dict_keys languages @ ord frameworks @ ord databases))\<rparr>;
                  r4 = r3\<lparr>structure := join [nl] (st_file_structure st)\<rparr>;
                  r5 = r4\<lparr>complexity_score := complexity fl (st_total_lines st)\<rparr>;
                  r6 = r5\<lparr>architecture_type := Some (determine_architecture frameworks languages)\<rparr>
              in case generate_summary r6 of
                   Inl e \<Rightarrow> Inl e
                 | Inr s \<Rightarrow>
                     Inr (r6\<lparr>summary := s,
                             detailed_analysis :=
                               Some (generate_detailed_analysis ord file_contents languages frameworks databases),
                             context :=
                               Some \<lparr>ctx_files = file_contents, ctx_languages = languages,
                                     ctx_frameworks = ord frameworks, ctx_databases = ord databases,
                                     ctx_total_lines = st_total_lines st,
                                     ctx_file_count = length file_contents,
                                     ctx_repository = None\<rparr>\<rparr>)))"

text \<open>
  \<open>ProjectAnalyzer.analyze_repository\<close>: the files of the repository, a dictionary
  from path to content, go through \<open>analyze_files\<close>, whatever their number.
\<close>

record repo_data =
  rd_files :: "(string \<times> string) list"
  rd_info :: repository

definition analyze_repository :: "set_order \<Rightarrow> rounding \<Rightarrow> repo_data \<Rightarrow> exn + analysis_result" where
  "analyze_repository ord fl rd =
     (let file_contents = map (\<lambda>(file_path, c). \<lparr>name = file_path, content = c\<rparr>) (rd_files rd)
      in case analyze_files ord fl file_contents of
           Inl e \<Rightarrow> Inl e
         | Inr r \<Rightarrow>
             (case context r of
                None \<Rightarrow> Inr r
              | Some c \<Rightarrow> Inr (r\<lparr>context := Some (c\<lparr>ctx_repository := Some (rd_info rd)\<rparr>)\<rparr>)))"

section \<open>The upload endpoint\<close>

text \<open>
  The handler \<open>analyze_files\<close> of \<open>main.py\<close>, for uploads already decoded to text.
  It raises on an empty list of uploads, and every exception raised inside its \<open>try\<close>
  block, that one included, leaves it as an \<open>HTTPException\<close> with status 500. Storing
  the result in the vector store is outside the analyzer and is left out. The response
  model has no field \<open>detailed_analysis\<close>.
\<close>

definition str_exn :: "exn \<Rightarrow> string" where
  "str_exn e = (case e of HTTPException status detail \<Rightarrow> str_nat status @ '': '' @ detail
                        | AttributeError m \<Rightarrow> m
                        | IndexError m \<Rightarrow> m)"

definition api_analyze_files :: "set_order \<Rightarrow> rounding \<Rightarrow> file_info list \<Rightarrow> exn + analysis_result" where
  "api_analyze_files ord fl files =
     (case (if files = [] then Inl (HTTPException 400 ''No files provided'')
            else (case analyze_files ord fl files of
                    Inl e \<Rightarrow> Inl e
                  | Inr r \<Rightarrow> Inr (r\<lparr>detailed_analysis := None\<rparr>))) of
        Inl e \<Rightarrow> Inl (HTTPException 500 (''Analysis failed: '' @ str_exn e))
      | Inr response \<Rightarrow> Inr response)"

section \<open>Notions used in the properties\<close>

text \<open>
  Counting one more file of a language in the histogram, the languages of the files that
  have one, in the order of the files, and the technologies of a table with a pattern found
  in some file.
\<close>

definition add_language :: "histogram \<Rightarrow> string \<Rightarrow> histogram" where
  "add_language h l = dict_set h l (dict_get h l + 1)"

definition known_languages :: "file_info list \<Rightarrow> string list" where
  "known_languages fs = filter (\<lambda>l. l \<noteq> ''Unknown'') (map (\<lambda>f. language_of (name f)) fs)"

definition detected :: "(string \<times> regex list) list \<Rightarrow> file_info list \<Rightarrow> string list" where
  "detected table fs =
     map fst (filter (\<lambda>(tech, patterns). list_ex (\<lambda>f. matches_any patterns (content f)) fs) table)"


definition server_py :: file_info where
  "server_py = \<lparr>name = ''server.py'',
                 content = ''from fastapi import FastAPI'' @ [nl] @ ''@app.get('' @ [sq] @ ''/users'' @ [sq] @ '')''\<rparr>"

definition app_jsx :: file_info where
  "app_jsx = \<lparr>name = ''App.jsx'', content = ''import React from '' @ [sq] @ ''react'' @ [sq]\<rparr>"

definition flask_py :: file_info where
  "flask_py = \<lparr>name = ''server.py'', content = ''from flask import Flask''\<rparr>"

definition readme :: file_info where
  "readme = \<lparr>name = ''README'', content = ''notes''\<rparr>"


definition empty_js :: file_info where
  "empty_js = \<lparr>name = ''util.js'', content = []\<rparr>"

section \<open>Dictionaries, sets and the maximum\<close>

lemma map_of_dict_set: "map_of (dict_set d k v) = (map_of d)(k \<mapsto> v)"
  by (induction d k v rule: dict_set.induct) (auto simp: fun_eq_iff)

lemma dict_get_dict_set: "dict_get (dict_set d k v) j = (if j = k then v else dict_get d j)"
  by (simp add: dict_get_def map_of_dict_set)

lemma dict_keys_dict_set: "dict_keys (dict_set d k v) = set_add k (dict_keys d)"
  by (induction d k v rule: dict_set.induct) (auto simp: dict_keys_def set_add_def)

lemma sum_dict_set: "sum_list (map snd (dict_set d k v)) + dict_get d k = sum_list (map snd d) + v"
  by (induction d k v rule: dict_set.induct) (auto simp: dict_get_def)

lemma set_dict_set: "set (dict_set d k v) \<subseteq> insert (k, v) (set d)"
  by (induction d k v rule: dict_set.induct) auto

lemma dict_get_add_language:
  "dict_get (add_language h l) j = (if j = l then dict_get h l + 1 else dict_get h j)"
  by (simp add: add_language_def dict_get_dict_set)

lemma dict_keys_add_language: "dict_keys (add_language h l) = set_add l (dict_keys h)"
  by (simp add: add_language_def dict_keys_dict_set)

lemma sum_add_language: "sum_list (map snd (add_language h l)) = sum_list (map snd h) + 1"
  using sum_dict_set [of h l "dict_get h l + 1"] by (simp add: add_language_def)

lemma pos_add_language:
  "\<forall>kv\<in>set h. 1 \<le> snd kv \<Longrightarrow> \<forall>kv\<in>set (add_language h l). 1 \<le> snd kv"
  using set_dict_set [of h l "dict_get h l + 1"] by (auto simp: add_language_def)

lemma dict_get_count: "dict_get (foldl add_language h ls) j = dict_get h j + count_list ls j"
  by (induction ls arbitrary: h) (auto simp: dict_get_add_language)

lemma dict_keys_count: "dict_keys (foldl add_language h ls) = foldl (\<lambda>s x. set_add x s) (dict_keys h) ls"
  by (induction ls arbitrary: h) (auto simp: dict_keys_add_language)

lemma sum_count: "sum_list (map snd (foldl add_language h ls)) = sum_list (map snd h) + length ls"
  by (induction ls arbitrary: h) (auto simp: sum_add_language)

lemma pos_count:
  "\<forall>kv\<in>set h. 1 \<le> snd kv \<Longrightarrow> \<forall>kv\<in>set (foldl add_language h ls). 1 \<le> snd kv"
proof (induction ls arbitrary: h)
  case Nil then show ?case by simp
next
  case (Cons l ls)
  from Cons.prems have "\<forall>kv\<in>set (add_language h l). 1 \<le> snd kv" by (rule pos_add_language)
  then show ?case using Cons.IH by simp
qed

lemma set_set_add: "set (set_add x s) = insert x (set s)"
  by (auto simp: set_add_def)

lemma distinct_set_add: "distinct s \<Longrightarrow> distinct (set_add x s)"
  by (auto simp: set_add_def)

lemma set_fold_set_add: "set (foldl (\<lambda>s x. set_add x s) acc xs) = set acc \<union> set xs"
  by (induction xs arbitrary: acc) (auto simp: set_set_add)

lemma distinct_fold_set_add: "distinct acc \<Longrightarrow> distinct (foldl (\<lambda>s x. set_add x s) acc xs)"
  by (induction xs arbitrary: acc) (auto simp: distinct_set_add)

lemma set_set_of_list: "set (set_of_list xs) = set xs"
  by (simp add: set_of_list_def set_fold_set_add)

lemma distinct_set_of_list: "distinct (set_of_list xs)"
  by (simp add: set_of_list_def distinct_fold_set_add)

lemma set_of_list_snoc: "set_of_list (xs @ [x]) = set_add x (set_of_list xs)"
  by (simp add: set_of_list_def)

lemma first_seen_prefix:
  "set_of_list ls = pre @ k # post \<Longrightarrow> \<exists>p q. ls = p @ k # q \<and> k \<notin> set p \<and> set p = set pre"
proof (induction ls arbitrary: post rule: rev_induct)
  case Nil then show ?case by (simp add: set_of_list_def)
next
  case (snoc x ls)
  show ?case
  proof (cases "x \<in> set (set_of_list ls)")
    case True
    with snoc.prems have "set_of_list ls = pre @ k # post"
      by (simp add: set_of_list_snoc set_add_def)
    from snoc.IH [OF this] obtain p q where "ls = p @ k # q" "k \<notin> set p" "set p = set pre" by blast
    then have "ls @ [x] = p @ k # (q @ [x])" by simp
    with \<open>k \<notin> set p\<close> \<open>set p = set pre\<close> show ?thesis by blast
  next
    case False
    with snoc.prems have eq: "set_of_list ls @ [x] = pre @ k # post"
      by (simp add: set_of_list_snoc set_add_def)
    show ?thesis
    proof (cases post rule: rev_cases)
      case Nil
      with eq have "set_of_list ls = pre" "k = x" by auto
      with False have "k \<notin> set ls" "set ls = set pre" by (auto simp: set_set_of_list)
      then show ?thesis by (intro exI [of _ ls] exI [of _ "[]"]) (simp add: \<open>k = x\<close>)
    next
      case (snoc post' y)
      with eq have "set_of_list ls = pre @ k # post'" by (metis append_Cons append_assoc butlast_snoc)
      from snoc.IH [OF this] obtain p q where "ls = p @ k # q" "k \<notin> set p" "set p = set pre" by blast
      then have "ls @ [x] = p @ k # (q @ [x])" by simp
      with \<open>k \<notin> set p\<close> \<open>set p = set pre\<close> show ?thesis by blast
    qed
  qed
qed

lemma max_from_spec:
  "(max_from (k, v) d = k \<and> (\<forall>kv\<in>set d. snd kv \<le> v)) \<or>
   (\<exists>d1 k' v' d2. d = d1 @ (k', v') # d2 \<and> max_from (k, v) d = k' \<and> v < v'
       \<and> (\<forall>kv\<in>set d1. snd kv < v') \<and> (\<forall>kv\<in>set d2. snd kv \<le> v'))"
proof (induction "(k, v)" d arbitrary: k v rule: max_from.induct)
  case (1 k v)
  then show ?case by simp
next
  case (2 k v k' v' d)
  show ?case
  proof (cases "v < v'")
    case True
    from 2(1) [OF True] show ?thesis
    proof
      assume a: "max_from (k', v') d = k' \<and> (\<forall>kv\<in>set d. snd kv \<le> v')"
      have "(k', v') # d = [] @ (k', v') # d" by simp
      with a True show ?thesis by (intro disjI2) (auto intro!: exI [of _ "[]"])
    next
      assume "\<exists>d1 k'' v'' d2. d = d1 @ (k'', v'') # d2 \<and> max_from (k', v') d = k'' \<and> v' < v''
       \<and> (\<forall>kv\<in>set d1. snd kv < v'') \<and> (\<forall>kv\<in>set d2. snd kv \<le> v'')"
      then obtain d1 k'' v'' d2 where b: "d = d1 @ (k'', v'') # d2" "max_from (k', v') d = k''" "v' < v''"
        "\<forall>kv\<in>set d1. snd kv < v''" "\<forall>kv\<in>set d2. snd kv \<le> v''" by blast
      have "(k', v') # d = ((k', v') # d1) @ (k'', v'') # d2" using b by simp
      moreover have "\<forall>kv\<in>set ((k', v') # d1). snd kv < v''" using b by auto
      moreover have "v < v''" using True b by simp
      ultimately show ?thesis using b True by (intro disjI2) (auto intro!: exI [of _ "(k', v') # d1"])
    qed
  next
    case False
    from 2(2) [OF False] show ?thesis
    proof
      assume "max_from (k, v) d = k \<and> (\<forall>kv\<in>set d. snd kv \<le> v)"
      with False show ?thesis by auto
    next
      assume "\<exists>d1 k'' v'' d2. d = d1 @ (k'', v'') # d2 \<and> max_from (k, v) d = k'' \<and> v < v''
       \<and> (\<forall>kv\<in>set d1. snd kv < v'') \<and> (\<forall>kv\<in>set d2. snd kv \<le> v'')"
      then obtain d1 k'' v'' d2 where b: "d = d1 @ (k'', v'') # d2" "max_from (k, v) d = k''" "v < v''"
        "\<forall>kv\<in>set d1. snd kv < v''" "\<forall>kv\<in>set d2. snd kv \<le> v''" by blast
      have "(k', v') # d = ((k', v') # d1) @ (k'', v'') # d2" using b by simp
      moreover have "\<forall>kv\<in>set ((k', v') # d1). snd kv < v''" using b False by auto
      ultimately show ?thesis using b False by (intro disjI2) (auto intro!: exI [of _ "(k', v') # d1"])
    qed
  qed
qed

lemma max_key_spec:
  assumes "h \<noteq> []"
  shows "\<exists>pre k v post. h = pre @ (k, v) # post \<and> max_key h = Some k
           \<and> (\<forall>kv\<in>set pre. snd kv < v) \<and> (\<forall>kv\<in>set post. snd kv \<le> v)"
proof -
  from assms obtain k0 v0 d where h: "h = (k0, v0) # d" by (cases h) auto
  from max_from_spec [of k0 v0 d] show ?thesis
  proof
    assume a: "max_from (k0, v0) d = k0 \<and> (\<forall>kv\<in>set d. snd kv \<le> v0)"
    have "h = [] @ (k0, v0) # d" using h by simp
    moreover have "max_key h = Some k0" using a h by (simp add: max_key_def)
    ultimately show ?thesis using a by (intro exI [of _ "[]"] exI [of _ k0] exI [of _ v0] exI [of _ d]) simp
  next
    assume "\<exists>d1 k' v' d2. d = d1 @ (k', v') # d2 \<and> max_from (k0, v0) d = k' \<and> v0 < v'
       \<and> (\<forall>kv\<in>set d1. snd kv < v') \<and> (\<forall>kv\<in>set d2. snd kv \<le> v')"
    then obtain d1 k' v' d2 where b: "d = d1 @ (k', v') # d2" "max_from (k0, v0) d = k'" "v0 < v'"
        "\<forall>kv\<in>set d1. snd kv < v'" "\<forall>kv\<in>set d2. snd kv \<le> v'" by blast
    have "h = ((k0, v0) # d1) @ (k', v') # d2" using h b by simp
    moreover have "max_key h = Some k'" using b h by (simp add: max_key_def)
    moreover have "\<forall>kv\<in>set ((k0, v0) # d1). snd kv < v'" using b by auto
    ultimately show ?thesis using b
      by (intro exI [of _ "(k0, v0) # d1"] exI [of _ k'] exI [of _ v'] exI [of _ d2]) simp
  qed
qed

lemma dict_get_distinct:
  "distinct (map fst h) \<Longrightarrow> (k, v) \<in> set h \<Longrightarrow> dict_get h k = v"
  by (simp add: dict_get_def)

lemma scan_file_languages:
  "st_languages (scan_file st f) =
     (if language_of (name f) \<noteq> ''Unknown'' then add_language (st_languages st) (language_of (name f))
      else st_languages st)"
  by (simp add: scan_file_def Let_def add_language_def)

lemma scan_files_languages:
  "st_languages (scan_files st fs) = foldl add_language (st_languages st) (known_languages fs)"
  by (induction fs arbitrary: st) (simp_all add: known_languages_def scan_file_languages)

lemma scan_files_total_lines:
  "st_total_lines (scan_files st fs) = st_total_lines st + sum_list (map (\<lambda>f. line_count (content f)) fs)"
  by (induction fs arbitrary: st) (simp_all add: scan_file_def Let_def)

lemma scan_files_file_structure:
  "st_file_structure (scan_files st fs) =
     st_file_structure st @
     map (\<lambda>f. structure_line (name f) (language_of (name f)) (line_count (content f))) fs"
  by (induction fs arbitrary: st) (simp_all add: scan_file_def Let_def)

lemma set_detect:
  "set (detect table c s) = set s \<union> {tech. \<exists>patterns. (tech, patterns) \<in> set table \<and> matches_any patterns c}"
proof -
  have "set (foldl (\<lambda>acc (tech, patterns). if matches_any patterns c then set_add tech acc else acc) s table)
        = set s \<union> {tech. \<exists>patterns. (tech, patterns) \<in> set table \<and> matches_any patterns c}"
    by (induction table arbitrary: s) (auto simp: set_set_add split: if_splits)
  then show ?thesis by (simp add: detect_def)
qed

lemma distinct_detect: "distinct s \<Longrightarrow> distinct (detect table c s)"
proof -
  have "distinct s \<Longrightarrow>
    distinct (foldl (\<lambda>acc (tech, patterns). if matches_any patterns c then set_add tech acc else acc) s table)"
    by (induction table arbitrary: s) (auto simp: distinct_set_add split: if_splits)
  then show "distinct s \<Longrightarrow> distinct (detect table c s)" by (simp add: detect_def)
qed

lemma set_detected:
  "set (detected table fs) =
     {tech. \<exists>patterns. (tech, patterns) \<in> set table \<and> (\<exists>f\<in>set fs. matches_any patterns (content f))}"
  by (force simp: detected_def list_ex_iff)

lemma scan_files_frameworks:
  "set (st_frameworks (scan_files st fs)) = set (st_frameworks st) \<union> set (detected framework_patterns fs)"
  by (induction fs arbitrary: st) (auto simp: scan_file_def Let_def set_detect set_detected)

lemma scan_files_databases:
  "set (st_databases (scan_files st fs)) = set (st_databases st) \<union> set (detected database_patterns fs)"
  by (induction fs arbitrary: st) (auto simp: scan_file_def Let_def set_detect set_detected)

lemma scan_files_distinct:
  "distinct (st_frameworks st) \<Longrightarrow> distinct (st_frameworks (scan_files st fs))"
  "distinct (st_databases st) \<Longrightarrow> distinct (st_databases (scan_files st fs))"
  by (induction fs arbitrary: st) (simp_all add: scan_file_def Let_def distinct_detect)

lemma split_on_nonempty: "split_on sep s \<noteq> []"
  by (induction s) (auto split: list.splits)

lemma length_split_on: "length (split_on sep s) = Suc (count_list s sep)"
  by (induction s) (auto split: list.splits simp: split_on_nonempty)

lemma join_split_on: "join [sep] (split_on sep s) = s"
proof (induction s)
  case Nil then show ?case by simp
next
  case (Cons c s)
  obtain l ls where ls: "split_on sep s = l # ls" using split_on_nonempty [of sep s] by (cases "split_on sep s") auto
  show ?case
  proof (cases "c = sep")
    case True
    then show ?thesis using Cons ls by simp
  next
    case False
    then show ?thesis using Cons ls by (cases ls) auto
  qed
qed

lemma split_on_no_sep: "seg \<in> set (split_on sep s) \<Longrightarrow> sep \<notin> set seg"
  by (induction s arbitrary: seg) (auto split: list.splits if_splits)

section \<open>Case conversion on the bits of a character\<close>

lemma lower_char_code [code]:
  "lower_char (Char b0 b1 b2 b3 b4 b5 b6 b7) =
     (if \<not> b7 \<and> b6 \<and> \<not> b5 \<and> (b0 \<or> b1 \<or> b2 \<or> b3 \<or> b4) \<and> \<not> (b4 \<and> b3 \<and> (b2 \<or> (b1 \<and> b0)))
      then Char b0 b1 b2 b3 b4 True b6 b7 else Char b0 b1 b2 b3 b4 b5 b6 b7)"
  by (cases b0; cases b1; cases b2; cases b3; cases b4; cases b5; cases b6; cases b7)
     (simp_all add: lower_char_def char_of_def bit_Suc_0_iff)

lemma upper_char_code [code]:
  "upper_char (Char b0 b1 b2 b3 b4 b5 b6 b7) =
     (if \<not> b7 \<and> b6 \<and> b5 \<and> (b0 \<or> b1 \<or> b2 \<or> b3 \<or> b4) \<and> \<not> (b4 \<and> b3 \<and> (b2 \<or> (b1 \<and> b0)))
      then Char b0 b1 b2 b3 b4 False b6 b7 else Char b0 b1 b2 b3 b4 b5 b6 b7)"
  by (cases b0; cases b1; cases b2; cases b3; cases b4; cases b5; cases b6; cases b7)
     (simp_all add: upper_char_def char_of_def bit_Suc_0_iff)

section \<open>The result of \<open>analyze_files\<close>\<close>

lemma generate_summary_Inl_iff:
  "(generate_summary a = Inl e) = (architecture_type a = None \<and> e = AttributeError ''lower'')"
  by (cases "architecture_type a") (auto simp: generate_summary_def)

lemma init_state_fields:
  "st_languages init_state = []" "st_frameworks init_state = []" "st_databases init_state = []"
  "st_file_structure init_state = []" "st_total_lines init_state = 0"
  by (simp_all add: init_state_def)

lemma frameworks_distinct: "distinct (st_frameworks (scan_files init_state fs))"
  by (rule scan_files_distinct) (simp add: init_state_fields)

lemma databases_distinct: "distinct (st_databases (scan_files init_state fs))"
  by (rule scan_files_distinct) (simp add: init_state_fields)

lemma frameworks_detected:
  "set (st_frameworks (scan_files init_state fs)) = set (detected framework_patterns fs)"
  by (simp add: scan_files_frameworks init_state_fields)

lemma databases_detected_set:
  "set (st_databases (scan_files init_state fs)) = set (detected database_patterns fs)"
  by (simp add: scan_files_databases init_state_fields)

lemma languages_counted:
  "st_languages (scan_files init_state fs) = foldl add_language [] (known_languages fs)"
  by (simp add: scan_files_languages init_state_fields)

lemma first_ok:
  assumes "set_order_ok ord" "distinct xs" "xs \<noteq> []"
  shows "\<exists>x. first (ord xs) = Inr x \<and> x \<in> set xs"
proof -
  from assms have s: "set (ord xs) = set xs" by (simp add: set_order_ok_def)
  with assms(3) obtain y ys where "ord xs = y # ys" by (cases "ord xs") auto
  with s show ?thesis by (auto simp: first_def)
qed

lemma analyze_files_total:
  assumes "set_order_ok ord"
  shows "\<exists>r. analyze_files ord fl fs = Inr r"
proof (cases "st_frameworks (scan_files init_state fs) = []")
  case True
  then show ?thesis
    by (simp add: analyze_files_def Let_def generate_summary_Inl_iff split: sum.splits)
next
  case False
  from first_ok [OF assms frameworks_distinct False]
  obtain x where "first (ord (st_frameworks (scan_files init_state fs))) = Inr x" by blast
  with False show ?thesis
    by (simp add: analyze_files_def Let_def generate_summary_Inl_iff split: sum.splits)
qed

lemma analyze_files_fields:
  assumes "analyze_files ord fl fs = Inr r"
  shows "files_analyzed r = length fs"
    and "main_language r = max_key (st_languages (scan_files init_state fs))"
    and "framework r =
           (if st_frameworks (scan_files init_state fs) = [] then None
            else (case first (ord (st_frameworks (scan_files init_state fs))) of
                    Inl e \<Rightarrow> None | Inr x \<Rightarrow> Some x))"
    and "architecture_type r =
           Some (determine_architecture (st_frameworks (scan_files init_state fs))
                   (st_languages (scan_files init_state fs)))"
    and "structure r = join [nl] (st_file_structure (scan_files init_state fs))"
    and "complexity_score r = complexity fl (st_total_lines (scan_files init_state fs))"
    and "technologies r =
           ord (set_of_list (dict_keys (st_languages (scan_files init_state fs))
                 @ ord (st_frameworks (scan_files init_state fs))
                 @ ord (st_databases (scan_files init_state fs))))"
    and "detailed_analysis r =
           Some (generate_detailed_analysis ord fs (st_languages (scan_files init_state fs))
                   (st_frameworks (scan_files init_state fs)) (st_databases (scan_files init_state fs)))"
    and "map_option ctx_total_lines (context r) = Some (st_total_lines (scan_files init_state fs))"
    and "map_option ctx_languages (context r) = Some (st_languages (scan_files init_state fs))"
  using assms
  by (auto simp: analyze_files_def Let_def max_key_def initial_result_def generate_summary_Inl_iff
           split: if_splits sum.splits)

lemma set_order_ok_id: "set_order_ok id"
  by (simp add: set_order_ok_def)

lemma set_order_ok_rev: "set_order_ok rev"
  by (simp add: set_order_ok_def)

section \<open>The language histogram\<close>

text \<open>
  C6: after the scan of any list of files, the counts of the language histogram add up to
  the number of files whose extension gave a language other than Unknown, and every
  entry of the histogram has a count of at least 1.
\<close>

theorem histogram_sound:
  "sum_list (map snd (st_languages (scan_files init_state fs))) = length (known_languages fs)
   \<and> (\<forall>kv\<in>set (st_languages (scan_files init_state fs)). 1 \<le> snd kv)
   \<and> length (known_languages fs) = length (filter (\<lambda>f. language_of (name f) \<noteq> ''Unknown'') fs)"
proof -
  have h: "st_languages (scan_files init_state fs) = foldl add_language [] (known_languages fs)"
    by (simp add: scan_files_languages init_state_def)
  have "\<forall>kv\<in>set (foldl add_language [] (known_languages fs)). 1 \<le> snd kv"
    by (rule pos_count) simp
  moreover have "length (known_languages fs) = length (filter (\<lambda>f. language_of (name f) \<noteq> ''Unknown'') fs)"
    by (induction fs) (simp_all add: known_languages_def)
  ultimately show ?thesis using h by (simp add: sum_count)
qed

theorem histogram_sound_witness:
  "known_languages [server_py, readme, empty_js, flask_py] = [''Python'', ''JavaScript'', ''Python'']
   \<and> sum_list (map snd (st_languages (scan_files init_state [server_py, readme, empty_js, flask_py])))
       = length (known_languages [server_py, readme, empty_js, flask_py])
   \<and> list_all (\<lambda>kv. 1 \<le> snd kv) (st_languages (scan_files init_state [server_py, readme, empty_js, flask_py]))"
proof -
  have "known_languages [server_py, readme, empty_js, flask_py] = [''Python'', ''JavaScript'', ''Python'']"
    by code_simp
  then show ?thesis
    using histogram_sound [of "[server_py, readme, empty_js, flask_py]"] by (simp add: list_all_iff)
qed

section \<open>The empty list of files\<close>

text \<open>
  C1, as stated: the analyzer rejects the empty list of files. It does not: on the empty
  list \<open>analyze_files\<close> returns a complete result, for zero files. It is reached with
  the empty list through \<open>analyze_repository\<close>, for a repository with no file to analyze.
\<close>

theorem core_accepts_empty_input:
  "map_sum id files_analyzed (analyze_files id id []) = Inr 0"
proof -
  from analyze_files_total [OF set_order_ok_id] obtain r where r: "analyze_files id id [] = Inr r"
    by blast
  from analyze_files_fields(1) [OF r] show ?thesis by (simp add: r)
qed

text \<open>
  C1, amended: the upload endpoint rejects an empty list of uploads before any file is
  processed and returns no result; the analyzer itself never fails, it returns a
  complete result for every list of files, the empty one included, and so the endpoint
  returns a result for every non-empty list.
\<close>

theorem empty_upload_rejected:
  assumes "set_order_ok ord"
  shows "isl (api_analyze_files ord fl [])
       \<and> (\<exists>r. analyze_files ord fl fs = Inr r \<and> files_analyzed r = length fs)
       \<and> (gs \<noteq> [] \<longrightarrow> \<not> isl (api_analyze_files ord fl gs))"
proof -
  have a: "isl (api_analyze_files ord fl [])" by (simp add: api_analyze_files_def)
  from analyze_files_total [OF assms] obtain r where r: "analyze_files ord fl fs = Inr r" by blast
  from analyze_files_fields(1) [OF r] r
  have b: "\<exists>r. analyze_files ord fl fs = Inr r \<and> files_analyzed r = length fs" by blast
  from analyze_files_total [OF assms] obtain r' where "analyze_files ord fl gs = Inr r'" by blast
  then have c: "gs \<noteq> [] \<longrightarrow> \<not> isl (api_analyze_files ord fl gs)" by (simp add: api_analyze_files_def)
  from a b c show ?thesis by blast
qed

theorem empty_upload_rejected_witness:
  "set_order_ok id \<and> isl (api_analyze_files id id [])
     \<and> (\<exists>r. analyze_files id id [] = Inr r \<and> files_analyzed r = length ([] :: file_info list))
     \<and> [readme] \<noteq> [] \<and> \<not> isl (api_analyze_files id id [readme])"
  using empty_upload_rejected [OF set_order_ok_id, of id "[]" "[readme]"] set_order_ok_id by simp

section \<open>The main language\<close>

text \<open>
  C3: when some file has a known language, the main language reported is a key \<open>k\<close>
  of the histogram whose count no other key exceeds, and every language met in the files
  before the first file of language \<open>k\<close> has a strictly smaller count: among the keys
  with the greatest count, the one met first in the order of the files is chosen. The
  count of a key is the number of files of that language.
\<close>

theorem main_language_greatest_first_seen:
  assumes "set_order_ok ord" and "known_languages fs \<noteq> []"
  shows "\<exists>k p q. (\<exists>r. analyze_files ord fl fs = Inr r \<and> main_language r = Some k)
           \<and> known_languages fs = p @ k # q \<and> k \<notin> set p
           \<and> (\<forall>j\<in>set p. dict_get (st_languages (scan_files init_state fs)) j
                          < dict_get (st_languages (scan_files init_state fs)) k)
           \<and> (\<forall>j\<in>set (dict_keys (st_languages (scan_files init_state fs))).
                  dict_get (st_languages (scan_files init_state fs)) j
                    \<le> dict_get (st_languages (scan_files init_state fs)) k)
           \<and> (\<forall>j. dict_get (st_languages (scan_files init_state fs)) j = count_list (known_languages fs) j)"
proof -
  define h where "h = st_languages (scan_files init_state fs)"
  define ls where "ls = known_languages fs"
  have h: "h = foldl add_language [] ls" by (simp add: h_def ls_def languages_counted)
  have keys: "dict_keys h = set_of_list ls"
    using dict_keys_count [of "[]" ls] by (simp add: h set_of_list_def dict_keys_def)
  have counts: "dict_get h j = count_list ls j" for j
    by (simp add: h dict_get_count) (simp add: dict_get_def)
  have dist: "distinct (map fst h)" using keys distinct_set_of_list [of ls] by (simp add: dict_keys_def)
  have "set (dict_keys h) = set ls" by (simp add: keys set_set_of_list)
  with assms(2) have "h \<noteq> []" by (auto simp: ls_def dict_keys_def)
  from max_key_spec [OF this] obtain pre k v post where
    m: "h = pre @ (k, v) # post" "max_key h = Some k"
       "\<forall>kv\<in>set pre. snd kv < v" "\<forall>kv\<in>set post. snd kv \<le> v" by blast
  have val: "dict_get h j = w" if "(j, w) \<in> set h" for j w
    using dist that by (rule dict_get_distinct)
  have kv: "dict_get h k = v" by (rule val) (simp add: m(1))
  have "set_of_list ls = map fst pre @ k # map fst post"
    using keys m(1) by (simp add: dict_keys_def)
  from first_seen_prefix [OF this] obtain p q where
    pq: "ls = p @ k # q" "k \<notin> set p" "set p = set (map fst pre)" by blast
  have before: "\<forall>j\<in>set p. dict_get h j < dict_get h k"
  proof
    fix j assume "j \<in> set p"
    with pq(3) obtain w where w: "(j, w) \<in> set pre" by auto
    then have "(j, w) \<in> set h" by (simp add: m(1))
    then have "dict_get h j = w" by (rule val)
    with w m(3) kv show "dict_get h j < dict_get h k" by auto
  qed
  have all: "\<forall>j\<in>set (dict_keys h). dict_get h j \<le> dict_get h k"
  proof
    fix j assume "j \<in> set (dict_keys h)"
    then obtain w where w: "(j, w) \<in> set h" by (auto simp: dict_keys_def)
    then have g: "dict_get h j = w" by (rule val)
    from w m(1) have "(j, w) \<in> set pre \<or> (j, w) = (k, v) \<or> (j, w) \<in> set post" by auto
    with m(3) m(4) have "w \<le> v" by auto
    with g kv show "dict_get h j \<le> dict_get h k" by simp
  qed
  from analyze_files_total [OF assms(1)] obtain r where r: "analyze_files ord fl fs = Inr r" by blast
  from analyze_files_fields(2) [OF r] m(2) have "main_language r = Some k" by (simp add: h_def)
  with r have ex: "\<exists>r. analyze_files ord fl fs = Inr r \<and> main_language r = Some k" by blast
  from ex pq(1) pq(2) before all counts show ?thesis
    unfolding h_def ls_def by blast
qed

theorem main_language_greatest_first_seen_witness:
  "set_order_ok id \<and> known_languages [empty_js, flask_py] = [''JavaScript'', ''Python'']
   \<and> (\<exists>k p q. (\<exists>r. analyze_files id id [empty_js, flask_py] = Inr r \<and> main_language r = Some k)
           \<and> known_languages [empty_js, flask_py] = p @ k # q \<and> k \<notin> set p
           \<and> (\<forall>j\<in>set p. dict_get (st_languages (scan_files init_state [empty_js, flask_py])) j
                          < dict_get (st_languages (scan_files init_state [empty_js, flask_py])) k)
           \<and> (\<forall>j\<in>set (dict_keys (st_languages (scan_files init_state [empty_js, flask_py]))).
                  dict_get (st_languages (scan_files init_state [empty_js, flask_py])) j
                    \<le> dict_get (st_languages (scan_files init_state [empty_js, flask_py])) k)
           \<and> (\<forall>j. dict_get (st_languages (scan_files init_state [empty_js, flask_py])) j
                    = count_list (known_languages [empty_js, flask_py]) j))"
proof -
  have k: "known_languages [empty_js, flask_py] = [''JavaScript'', ''Python'']" by code_simp
  then have "known_languages [empty_js, flask_py] \<noteq> []" by simp
  from main_language_greatest_first_seen [OF set_order_ok_id this, of id] k set_order_ok_id
  show ?thesis by blast
qed

section \<open>Line counts and the structure listing\<close>

text \<open>
  C7: the line count of a file is the number of segments of its content split at the
  newlines, which is one more than the number of newlines (joining the segments with
  newlines gives the content back), so a file with empty content counts 1 line. Every
  file, whatever its content, adds its line count to the total and one entry to the
  structure listing, which is the entries \<open>name (language, n lines)\<close> of the files in
  their order, joined with newlines.
\<close>

theorem line_count_and_structure:
  "line_count c = Suc (count_list c nl)
   \<and> join [nl] (split_on nl c) = c
   \<and> line_count [] = 1
   \<and> (set_order_ok ord \<longrightarrow>
        (\<exists>r. analyze_files ord fl fs = Inr r
           \<and> structure r =
               join [nl] (map (\<lambda>f. name f @ '' ('' @ language_of (name f) @ '', ''
                                      @ str_nat (line_count (content f)) @ '' lines)'') fs)
           \<and> map_option ctx_total_lines (context r) = Some (sum_list (map (\<lambda>f. line_count (content f)) fs))))"
proof -
  have a: "line_count c = Suc (count_list c nl)" by (simp add: line_count_def length_split_on)
  have b: "join [nl] (split_on nl c) = c" by (rule join_split_on)
  have c: "line_count [] = 1" by (simp add: line_count_def)
  have d: "\<exists>r. analyze_files ord fl fs = Inr r
           \<and> structure r =
               join [nl] (map (\<lambda>f. name f @ '' ('' @ language_of (name f) @ '', ''
                                      @ str_nat (line_count (content f)) @ '' lines)'') fs)
           \<and> map_option ctx_total_lines (context r) = Some (sum_list (map (\<lambda>f. line_count (content f)) fs))"
    if ok: "set_order_ok ord"
  proof -
    from analyze_files_total [OF ok] obtain r where r: "analyze_files ord fl fs = Inr r" by blast
    have "structure r = join [nl] (map (\<lambda>f. name f @ '' ('' @ language_of (name f) @ '', ''
                                      @ str_nat (line_count (content f)) @ '' lines)'') fs)"
      using analyze_files_fields(5) [OF r]
      by (simp add: scan_files_file_structure init_state_fields structure_line_def)
    moreover have "map_option ctx_total_lines (context r) = Some (sum_list (map (\<lambda>f. line_count (content f)) fs))"
      using analyze_files_fields(9) [OF r] by (simp add: scan_files_total_lines init_state_fields)
    ultimately show ?thesis using r by blast
  qed
  from a b c d show ?thesis by blast
qed

theorem line_count_and_structure_witness:
  "set_order_ok id \<and> line_count (content empty_js) = 1
   \<and> (\<exists>r. analyze_files id id [empty_js, server_py] = Inr r
           \<and> structure r =
               join [nl] (map (\<lambda>f. name f @ '' ('' @ language_of (name f) @ '', ''
                                      @ str_nat (line_count (content f)) @ '' lines)'') [empty_js, server_py])
           \<and> map_option ctx_total_lines (context r)
               = Some (sum_list (map (\<lambda>f. line_count (content f)) [empty_js, server_py])))
   \<and> join [nl] (map (\<lambda>f. name f @ '' ('' @ language_of (name f) @ '', ''
                                      @ str_nat (line_count (content f)) @ '' lines)'') [empty_js, server_py])
       = ''util.js (JavaScript, 1 lines)'' @ [nl] @ ''server.py (Python, 2 lines)''
   \<and> sum_list (map (\<lambda>f. line_count (content f)) [empty_js, server_py]) = 3"
proof -
  have 1: "line_count (content empty_js) = 1" by code_simp
  have 2: "join [nl] (map (\<lambda>f. name f @ '' ('' @ language_of (name f) @ '', ''
                                      @ str_nat (line_count (content f)) @ '' lines)'') [empty_js, server_py])
       = ''util.js (JavaScript, 1 lines)'' @ [nl] @ ''server.py (Python, 2 lines)''" by code_simp
  have 3: "sum_list (map (\<lambda>f. line_count (content f)) [empty_js, server_py]) = 3" by code_simp
  from line_count_and_structure [of "content empty_js" id id "[empty_js, server_py]"] set_order_ok_id 1 2 3
  show ?thesis by blast
qed

section \<open>The complexity score\<close>

lemma complexity_mono:
  assumes "rounding_ok fl" "a \<le> b"
  shows "complexity fl a \<le> complexity fl b"
proof -
  from assms(1) have m: "mono fl" by (simp add: rounding_ok_def)
  from assms(2) have "fl (real a) \<le> fl (real b)" by (intro monoD [OF m]) simp
  then have "fl (real a) / 1000 \<le> fl (real b) / 1000" by (simp add: divide_right_mono)
  then have "fl (fl (real a) / 1000) \<le> fl (fl (real b) / 1000)" by (rule monoD [OF m])
  then show ?thesis by (simp add: complexity_def min_le_iff_disj)
qed

lemma complexity_zero: "rounding_ok fl \<Longrightarrow> complexity fl 0 = 0"
  by (simp add: complexity_def rounding_ok_def)

lemma complexity_10000: "rounding_ok fl \<Longrightarrow> complexity fl 10000 = 10"
  by (simp add: complexity_def rounding_ok_def)

lemma complexity_le_10: "complexity fl n \<le> 10"
  by (simp add: complexity_def)

lemma rounding_ok_id: "rounding_ok id"
  by (simp add: rounding_ok_def mono_def)

text \<open>
  C5: for a rounding to floats that is monotone and exact at 0, 10 and 10000, the
  complexity score of a result is the smaller of the total line count divided by 1000.0
  and 10.0; the score does not decrease when the total line count grows, it is 10 from
  10000 lines on, 0 for no file, and always between 0 and 10.
\<close>

theorem complexity_score_bounded_monotone:
  assumes "rounding_ok fl" and "set_order_ok ord"
  shows "(\<exists>r. analyze_files ord fl fs = Inr r
           \<and> complexity_score r
               = min (fl (fl (real (sum_list (map (\<lambda>f. line_count (content f)) fs))) / 1000)) 10)
       \<and> (a < b \<longrightarrow> complexity fl a \<le> complexity fl b)
       \<and> (10000 \<le> x \<longrightarrow> complexity fl x = 10)
       \<and> (\<exists>r. analyze_files ord fl [] = Inr r \<and> complexity_score r = 0)
       \<and> 0 \<le> complexity fl n \<and> complexity fl n \<le> 10"
proof -
  have score: "\<exists>r. analyze_files ord fl gs = Inr r
           \<and> complexity_score r = complexity fl (sum_list (map (\<lambda>f. line_count (content f)) gs))" for gs
  proof -
    from analyze_files_total [OF assms(2)] obtain r where r: "analyze_files ord fl gs = Inr r" by blast
    from analyze_files_fields(6) [OF r] r show ?thesis
      by (auto simp: scan_files_total_lines init_state_fields)
  qed
  have 1: "\<exists>r. analyze_files ord fl fs = Inr r
           \<and> complexity_score r
               = min (fl (fl (real (sum_list (map (\<lambda>f. line_count (content f)) fs))) / 1000)) 10"
    using score [of fs] by (simp add: complexity_def)
  have 2: "a < b \<longrightarrow> complexity fl a \<le> complexity fl b"
    using complexity_mono [OF assms(1), of a b] by simp
  have 3: "10000 \<le> x \<longrightarrow> complexity fl x = 10"
  proof
    assume "10000 \<le> x"
    from complexity_mono [OF assms(1) this] complexity_10000 [OF assms(1)] complexity_le_10 [of fl x]
    show "complexity fl x = 10" by simp
  qed
  have 4: "\<exists>r. analyze_files ord fl [] = Inr r \<and> complexity_score r = 0"
    using score [of "[]"] complexity_zero [OF assms(1)] by simp
  have 5: "0 \<le> complexity fl n"
    using complexity_mono [OF assms(1), of 0 n] complexity_zero [OF assms(1)] by simp
  from 1 2 3 4 5 complexity_le_10 [of fl n] show ?thesis by blast
qed

theorem complexity_score_bounded_monotone_witness:
  "rounding_ok id \<and> set_order_ok id
   \<and> (\<exists>r. analyze_files id id [server_py] = Inr r
           \<and> complexity_score r
               = min (id (id (real (sum_list (map (\<lambda>f. line_count (content f)) [server_py]))) / 1000)) 10)
   \<and> (4000::nat) < 9000 \<and> complexity id 4000 \<le> complexity id 9000
   \<and> (10000::nat) \<le> 12000 \<and> complexity id 12000 = 10
   \<and> (\<exists>r. analyze_files id id [] = Inr r \<and> complexity_score r = 0)
   \<and> 0 \<le> complexity id 2500 \<and> complexity id 2500 \<le> 10"
  using complexity_score_bounded_monotone [OF rounding_ok_id set_order_ok_id, of "[server_py]" 4000 9000 12000 2500]
    rounding_ok_id set_order_ok_id
  by simp

section \<open>The architecture type\<close>

lemma intersection_nonempty: "(intersection s t \<noteq> []) = (set t \<inter> set s \<noteq> {})"
  by (auto simp: intersection_def filter_empty_conv)

lemma set_frontend_frameworks: "set frontend_frameworks = {''React'', ''Vue'', ''Angular''}"
  unfolding frontend_frameworks_def by (simp only: list.set)

lemma set_backend_frameworks:
  "set backend_frameworks = {''Express'', ''Django'', ''Flask'', ''FastAPI'', ''Spring'', ''Laravel'', ''Rails''}"
  unfolding backend_frameworks_def by (simp only: list.set)

lemma determine_architecture_sets:
  "determine_architecture frameworks languages =
     (if set frameworks \<inter> {''React'', ''Vue'', ''Angular''} \<noteq> {}
         \<and> set frameworks \<inter> {''Express'', ''Django'', ''Flask'', ''FastAPI'', ''Spring'', ''Laravel'', ''Rails''} \<noteq> {}
      then ''Full-stack''
      else if set frameworks \<inter> {''React'', ''Vue'', ''Angular''} \<noteq> {} then ''Frontend''
      else if set frameworks \<inter> {''Express'', ''Django'', ''Flask'', ''FastAPI'', ''Spring'', ''Laravel'', ''Rails''} \<noteq> {}
      then ''Backend''
      else if ''HTML'' \<in> set (dict_keys languages) \<and> ''CSS'' \<in> set (dict_keys languages)
      then ''Static Website''
      else ''Unknown'')"
  unfolding determine_architecture_def Let_def intersection_nonempty
    set_frontend_frameworks set_backend_frameworks
  by (rule refl)

lemma full_stack_any_order:
  assumes ok: "set_order_ok ord"
    and fe: "set (detected framework_patterns fs) \<inter> {''React'', ''Vue'', ''Angular''} \<noteq> {}"
    and be: "set (detected framework_patterns fs)
             \<inter> {''Express'', ''Django'', ''Flask'', ''FastAPI'', ''Spring'', ''Laravel'', ''Rails''} \<noteq> {}"
    and perm: "mset gs = mset fs"
  shows "\<exists>r. analyze_files ord fl gs = Inr r \<and> architecture_type r = Some ''Full-stack''"
proof -
  from perm have "set gs = set fs" by (rule mset_eq_setD)
  then have "set (detected framework_patterns gs) = set (detected framework_patterns fs)"
    by (simp only: set_detected)
  then have fw: "set (st_frameworks (scan_files init_state gs)) = set (detected framework_patterns fs)"
    by (simp only: frameworks_detected)
  from analyze_files_total [OF ok] obtain r where r: "analyze_files ord fl gs = Inr r" by blast
  have "determine_architecture (st_frameworks (scan_files init_state gs))
          (st_languages (scan_files init_state gs)) = ''Full-stack''"
    unfolding determine_architecture_sets fw by (rule if_P) (intro conjI fe be)
  with analyze_files_fields(4) [OF r] have "architecture_type r = Some ''Full-stack''" by (simp only:)
  with r show ?thesis by blast
qed

lemma detected_example: "detected framework_patterns [app_jsx, flask_py] = [''React'', ''Flask'']"
  by code_simp

text \<open>
  C4: the architecture type is decided in a fixed order, the first case that applies:
  a frontend framework (React, Vue, Angular) and a backend framework (Express, Django,
  Flask, FastAPI, Spring, Laravel, Rails) both detected give Full-stack; a frontend
  framework alone gives Frontend; a backend framework alone gives Backend; neither, with
  HTML and CSS both in the histogram, gives Static Website; anything else gives Unknown.
  When the files hold a signature of a frontend framework and one of a backend framework,
  the result is Full-stack in whatever order the files come.
\<close>

theorem architecture_first_match:
  "determine_architecture frameworks languages =
     (if set frameworks \<inter> {''React'', ''Vue'', ''Angular''} \<noteq> {}
         \<and> set frameworks \<inter> {''Express'', ''Django'', ''Flask'', ''FastAPI'', ''Spring'', ''Laravel'', ''Rails''} \<noteq> {}
      then ''Full-stack''
      else if set frameworks \<inter> {''React'', ''Vue'', ''Angular''} \<noteq> {} then ''Frontend''
      else if set frameworks \<inter> {''Express'', ''Django'', ''Flask'', ''FastAPI'', ''Spring'', ''Laravel'', ''Rails''} \<noteq> {}
      then ''Backend''
      else if ''HTML'' \<in> set (dict_keys languages) \<and> ''CSS'' \<in> set (dict_keys languages)
      then ''Static Website''
      else ''Unknown'')
   \<and> (set_order_ok ord
        \<and> set (detected framework_patterns fs) \<inter> {''React'', ''Vue'', ''Angular''} \<noteq> {}
        \<and> set (detected framework_patterns fs)
             \<inter> {''Express'', ''Django'', ''Flask'', ''FastAPI'', ''Spring'', ''Laravel'', ''Rails''} \<noteq> {}
        \<and> mset gs = mset fs
        \<longrightarrow> (\<exists>r. analyze_files ord fl gs = Inr r \<and> architecture_type r = Some ''Full-stack''))"
proof (rule conjI)
  show "determine_architecture frameworks languages =
     (if set frameworks \<inter> {''React'', ''Vue'', ''Angular''} \<noteq> {}
         \<and> set frameworks \<inter> {''Express'', ''Django'', ''Flask'', ''FastAPI'', ''Spring'', ''Laravel'', ''Rails''} \<noteq> {}
      then ''Full-stack''
      else if set frameworks \<inter> {''React'', ''Vue'', ''Angular''} \<noteq> {} then ''Frontend''
      else if set frameworks \<inter> {''Express'', ''Django'', ''Flask'', ''FastAPI'', ''Spring'', ''Laravel'', ''Rails''} \<noteq> {}
      then ''Backend''
      else if ''HTML'' \<in> set (dict_keys languages) \<and> ''CSS'' \<in> set (dict_keys languages)
      then ''Static Website''
      else ''Unknown'')"
    by (rule determine_architecture_sets)
next
  show "set_order_ok ord
        \<and> set (detected framework_patterns fs) \<inter> {''React'', ''Vue'', ''Angular''} \<noteq> {}
        \<and> set (detected framework_patterns fs)
             \<inter> {''Express'', ''Django'', ''Flask'', ''FastAPI'', ''Spring'', ''Laravel'', ''Rails''} \<noteq> {}
        \<and> mset gs = mset fs
        \<longrightarrow> (\<exists>r. analyze_files ord fl gs = Inr r \<and> architecture_type r = Some ''Full-stack'')"
  proof (rule impI, elim conjE)
    assume "set_order_ok ord"
      and "set (detected framework_patterns fs) \<inter> {''React'', ''Vue'', ''Angular''} \<noteq> {}"
      and "set (detected framework_patterns fs)
             \<inter> {''Express'', ''Django'', ''Flask'', ''FastAPI'', ''Spring'', ''Laravel'', ''Rails''} \<noteq> {}"
      and "mset gs = mset fs"
    then show "\<exists>r. analyze_files ord fl gs = Inr r \<and> architecture_type r = Some ''Full-stack''"
      by (rule full_stack_any_order)
  qed
qed

theorem architecture_first_match_witness:
  "set_order_ok id
   \<and> set (detected framework_patterns [app_jsx, flask_py]) \<inter> {''React'', ''Vue'', ''Angular''} \<noteq> {}
   \<and> set (detected framework_patterns [app_jsx, flask_py])
        \<inter> {''Express'', ''Django'', ''Flask'', ''FastAPI'', ''Spring'', ''Laravel'', ''Rails''} \<noteq> {}
   \<and> mset [flask_py, app_jsx] = mset [app_jsx, flask_py]
   \<and> (\<exists>r. analyze_files id id [flask_py, app_jsx] = Inr r \<and> architecture_type r = Some ''Full-stack'')"
proof -
  have fe: "set (detected framework_patterns [app_jsx, flask_py]) \<inter> {''React'', ''Vue'', ''Angular''} \<noteq> {}"
    by (simp add: detected_example)
  have be: "set (detected framework_patterns [app_jsx, flask_py])
        \<inter> {''Express'', ''Django'', ''Flask'', ''FastAPI'', ''Spring'', ''Laravel'', ''Rails''} \<noteq> {}"
    by (simp add: detected_example)
  have perm: "mset [flask_py, app_jsx] = mset [app_jsx, flask_py]" by (simp add: add.commute)
  note imp = architecture_first_match [of "[]" "[]" id "[app_jsx, flask_py]" "[flask_py, app_jsx]" id,
      THEN conjunct2, rule_format]
  have "\<exists>r. analyze_files id id [flask_py, app_jsx] = Inr r \<and> architecture_type r = Some ''Full-stack''"
    by (rule imp) (intro conjI set_order_ok_id fe be perm)
  then show ?thesis by (intro conjI set_order_ok_id fe be perm)
qed

section \<open>The primary framework\<close>

lemma scan_files_frameworks_fold:
  "st_frameworks (scan_files st fs) =
     foldl (\<lambda>s f. detect framework_patterns (content f) s) (st_frameworks st) fs"
  by (induction fs arbitrary: st) (simp_all add: scan_file_def Let_def)

lemma frameworks_example:
  "st_frameworks (scan_files init_state [app_jsx, flask_py]) = [''React'', ''Flask'']"
proof -
  have "foldl (\<lambda>s f. detect framework_patterns (content f) s) [] [app_jsx, flask_py] = [''React'', ''Flask'']"
    by code_simp
  then show ?thesis by (simp only: scan_files_frameworks_fold init_state_fields)
qed

text \<open>
  C2: the primary framework is the first element of \<open>list(frameworks)\<close>, in the
  iteration order of the set, whatever the order in which the frameworks were added. For
  the two files below, React is added first and Flask second; a run that iterates the
  set in the order of insertion reports React, a run that iterates it the other way round
  reports Flask.
\<close>

theorem primary_framework_follows_set_order:
  "st_frameworks (scan_files init_state [app_jsx, flask_py]) = [''React'', ''Flask'']
   \<and> map_sum id framework (analyze_files id id [app_jsx, flask_py]) = Inr (Some ''React'')
   \<and> map_sum id framework (analyze_files rev id [app_jsx, flask_py]) = Inr (Some ''Flask'')"
proof -
  from analyze_files_total [OF set_order_ok_id] obtain r
    where r: "analyze_files id id [app_jsx, flask_py] = Inr r" by blast
  from analyze_files_total [OF set_order_ok_rev] obtain r'
    where r': "analyze_files rev id [app_jsx, flask_py] = Inr r'" by blast
  from analyze_files_fields(3) [OF r, unfolded frameworks_example]
  have 1: "framework r = Some ''React''" by (simp add: first_def)
  from analyze_files_fields(3) [OF r', unfolded frameworks_example]
  have 2: "framework r' = Some ''Flask''" by (simp add: first_def)
  show ?thesis unfolding r r' frameworks_example using 1 2 by simp
qed

section \<open>The shape of the result\<close>

lemma readme_nothing:
  "known_languages [readme] = []" "st_frameworks (scan_files init_state [readme]) = []"
proof -
  show "known_languages [readme] = []" by code_simp
  have "foldl (\<lambda>s f. detect framework_patterns (content f) s) [] [readme] = []"
    by code_simp
  then show "st_frameworks (scan_files init_state [readme]) = []"
    by (simp only: scan_files_frameworks_fold init_state_fields)
qed

text \<open>
  C9, as stated: \<open>main_language\<close> and \<open>framework\<close> are never null. They are
  \<open>None\<close> for a file with no known extension and no framework signature.
\<close>

theorem main_language_and_framework_can_be_None:
  "map_sum id main_language (analyze_files id id [readme]) = Inr None
   \<and> map_sum id framework (analyze_files id id [readme]) = Inr None"
proof -
  from analyze_files_total [OF set_order_ok_id] obtain r
    where r: "analyze_files id id [readme] = Inr r" by blast
  from analyze_files_fields(2) [OF r, unfolded languages_counted readme_nothing]
  have 1: "main_language r = None" by (simp add: max_key_def)
  from analyze_files_fields(3) [OF r, unfolded readme_nothing]
  have 2: "framework r = None" by simp
  show ?thesis unfolding r using 1 2 by simp
qed

lemma languages_empty_iff:
  "(st_languages (scan_files init_state fs) = []) = (known_languages fs = [])"
proof -
  have "set (dict_keys (st_languages (scan_files init_state fs))) = set (known_languages fs)"
    using dict_keys_count [of "[]" "known_languages fs"]
    by (simp add: languages_counted set_fold_set_add dict_keys_def)
  then show ?thesis by (auto simp: dict_keys_def)
qed

lemma if_in_set: "a \<in> S \<Longrightarrow> b \<in> S \<Longrightarrow> (if c then a else b) \<in> S"
  by simp

lemma determine_architecture_range:
  "determine_architecture frameworks languages
     \<in> {''Full-stack'', ''Frontend'', ''Backend'', ''Static Website'', ''Unknown''}"
  unfolding determine_architecture_sets by (intro if_in_set) simp_all

lemma technologies_set:
  assumes ok: "set_order_ok ord" and r: "analyze_files ord fl fs = Inr r"
  shows "set (technologies r)
           = set (known_languages fs) \<union> set (detected framework_patterns fs)
               \<union> set (detected database_patterns fs)"
    and "distinct (technologies r)"
proof -
  let ?st = "scan_files init_state fs"
  let ?xs = "set_of_list (dict_keys (st_languages ?st) @ ord (st_frameworks ?st) @ ord (st_databases ?st))"
  have t: "technologies r = ord ?xs" by (rule analyze_files_fields(7) [OF r])
  have d: "distinct ?xs" by (rule distinct_set_of_list)
  have keys: "set (dict_keys (st_languages ?st)) = set (known_languages fs)"
    using dict_keys_count [of "[]" "known_languages fs"]
    by (simp add: languages_counted set_fold_set_add dict_keys_def)
  have fw: "set (ord (st_frameworks ?st)) = set (detected framework_patterns fs)"
    using ok frameworks_distinct [of fs] by (simp add: set_order_ok_def frameworks_detected)
  have db: "set (ord (st_databases ?st)) = set (detected database_patterns fs)"
    using ok databases_distinct [of fs] by (simp add: set_order_ok_def databases_detected_set)
  from ok d have "set (ord ?xs) = set ?xs" "distinct (ord ?xs)" by (simp_all add: set_order_ok_def)
  then show "set (technologies r)
           = set (known_languages fs) \<union> set (detected framework_patterns fs)
               \<union> set (detected database_patterns fs)"
    and "distinct (technologies r)"
    by (simp_all add: t set_set_of_list keys fw db Un_assoc)
qed

text \<open>
  C9, amended: every analysis returns a result in which \<open>main_language\<close> is \<open>None\<close>
  exactly when no file has a known language, \<open>framework\<close> is \<open>None\<close> exactly when
  no framework signature is found in any file and is otherwise one of the frameworks
  found, \<open>architecture_type\<close> is one of the five labels, \<open>technologies\<close> is the list,
  possibly empty, of the languages, frameworks and databases found, and
  \<open>detailed_analysis\<close> is present.
\<close>

theorem result_fields_shape:
  assumes "set_order_ok ord"
  shows "\<exists>r. analyze_files ord fl fs = Inr r
           \<and> (main_language r = None) = (known_languages fs = [])
           \<and> (framework r = None) = (detected framework_patterns fs = [])
           \<and> (\<forall>f. framework r = Some f \<longrightarrow> f \<in> set (detected framework_patterns fs))
           \<and> architecture_type r \<in> {Some ''Full-stack'', Some ''Frontend'', Some ''Backend'',
                                       Some ''Static Website'', Some ''Unknown''}
           \<and> set (technologies r)
               = set (known_languages fs) \<union> set (detected framework_patterns fs)
                   \<union> set (detected database_patterns fs)
           \<and> detailed_analysis r \<noteq> None"
proof -
  let ?st = "scan_files init_state fs"
  from analyze_files_total [OF assms] obtain r where r: "analyze_files ord fl fs = Inr r" by blast
  have 1: "(main_language r = None) = (known_languages fs = [])"
    using analyze_files_fields(2) [OF r] languages_empty_iff [of fs]
    by (simp add: max_key_def split: list.splits)
  have e: "(st_frameworks ?st = []) = (detected framework_patterns fs = [])"
    using frameworks_detected [of fs] by (metis set_empty)
  have 2: "(framework r = None) = (detected framework_patterns fs = [])"
   and 3: "\<forall>f. framework r = Some f \<longrightarrow> f \<in> set (detected framework_patterns fs)"
  proof -
    show "(framework r = None) = (detected framework_patterns fs = [])"
    proof (cases "st_frameworks ?st = []")
      case True
      with analyze_files_fields(3) [OF r] e show ?thesis by simp
    next
      case False
      from first_ok [OF assms frameworks_distinct False] obtain x where
        "first (ord (st_frameworks ?st)) = Inr x" by blast
      with analyze_files_fields(3) [OF r] False e show ?thesis by simp
    qed
    show "\<forall>f. framework r = Some f \<longrightarrow> f \<in> set (detected framework_patterns fs)"
    proof (cases "st_frameworks ?st = []")
      case True
      with analyze_files_fields(3) [OF r] show ?thesis by simp
    next
      case False
      from first_ok [OF assms frameworks_distinct False] obtain x where
        "first (ord (st_frameworks ?st)) = Inr x" "x \<in> set (st_frameworks ?st)" by blast
      with analyze_files_fields(3) [OF r] False show ?thesis by (simp add: frameworks_detected)
    qed
  qed
  have 4: "architecture_type r \<in> {Some ''Full-stack'', Some ''Frontend'', Some ''Backend'',
                                       Some ''Static Website'', Some ''Unknown''}"
    using determine_architecture_range [of "st_frameworks ?st" "st_languages ?st"]
    by (simp only: analyze_files_fields(4) [OF r] insert_iff empty_iff option.inject)
  have 5: "detailed_analysis r \<noteq> None" by (simp add: analyze_files_fields(8) [OF r])
  show ?thesis
    by (intro exI [of _ r] conjI r 1 2 3 4 technologies_set(1) [OF assms r] 5)
qed

theorem result_fields_shape_witness:
  "set_order_ok id
   \<and> (\<exists>r. analyze_files id id [readme] = Inr r
           \<and> (main_language r = None) = (known_languages [readme] = [])
           \<and> (framework r = None) = (detected framework_patterns [readme] = [])
           \<and> (\<forall>f. framework r = Some f \<longrightarrow> f \<in> set (detected framework_patterns [readme]))
           \<and> architecture_type r \<in> {Some ''Full-stack'', Some ''Frontend'', Some ''Backend'',
                                       Some ''Static Website'', Some ''Unknown''}
           \<and> set (technologies r)
               = set (known_languages [readme]) \<union> set (detected framework_patterns [readme])
                   \<union> set (detected database_patterns [readme])
           \<and> detailed_analysis r \<noteq> None)"
  by (intro conjI set_order_ok_id result_fields_shape [OF set_order_ok_id, of id "[readme]"])

section \<open>The buckets and the aspect analyzers\<close>








section \<open>A FastAPI server\<close>

lemma server_py_languages: "st_languages (scan_files init_state [server_py]) = [(''Python'', 1)]"
proof -
  have "foldl add_language [] (known_languages [server_py]) = [(''Python'', 1)]" by code_simp
  then show ?thesis by (simp only: languages_counted)
qed

lemma server_py_frameworks: "st_frameworks (scan_files init_state [server_py]) = [''FastAPI'']"
proof -
  have "foldl (\<lambda>s f. detect framework_patterns (content f) s) [] [server_py] = [''FastAPI'']"
    by code_simp
  then show ?thesis by (simp only: scan_files_frameworks_fold init_state_fields)
qed

lemma server_py_architecture: "determine_architecture [''FastAPI''] [(''Python'', 1)] = ''Backend''"
  by code_simp

lemma server_py_bucket: "backend_files (categorize no_buckets [server_py]) = [server_py]"
  by code_simp

lemma server_py_endpoints:
  "extract_api_endpoints (content server_py) = [Endpoint ''GET'' ''/users'', Endpoint ''GET'' ''/users'']"
  by code_simp

lemma server_py_api_files:
  "api_files (analyze_backend ord [server_py] frameworks databases)
     = [ApiFile (name server_py) [Endpoint ''GET'' ''/users'', Endpoint ''GET'' ''/users'']]"
  by (simp add: analyze_backend_def server_py_endpoints)

text \<open>
  C10: for the single file \<open>server.py\<close> whose content is the two lines
  \<open>from fastapi import FastAPI\<close> and \<open>@app.get('/users')\<close>, the analysis reports the
  main language Python, the primary framework FastAPI and the architecture type Backend,
  and the endpoints of the backend aspect include the method GET with the path /users.
\<close>

theorem fastapi_server_scenario:
  assumes "set_order_ok ord"
  shows "\<exists>r d. analyze_files ord fl [server_py] = Inr r
           \<and> main_language r = Some ''Python''
           \<and> framework r = Some ''FastAPI''
           \<and> architecture_type r = Some ''Backend''
           \<and> detailed_analysis r = Some d
           \<and> (\<exists>a\<in>set (api_files (da_backend d)). Endpoint ''GET'' ''/users'' \<in> set (endpoints a))"
proof -
  let ?st = "scan_files init_state [server_py]"
  from analyze_files_total [OF assms] obtain r where r: "analyze_files ord fl [server_py] = Inr r"
    by blast
  have 1: "main_language r = Some ''Python''"
    using analyze_files_fields(2) [OF r, unfolded server_py_languages] by (simp add: max_key_def)
  have "distinct [''FastAPI'']" "[''FastAPI''] \<noteq> []" by simp_all
  from first_ok [OF assms this] obtain x where "first (ord [''FastAPI'']) = Inr x" "x = ''FastAPI''"
    by auto
  then have 2: "framework r = Some ''FastAPI''"
    using analyze_files_fields(3) [OF r, unfolded server_py_frameworks] by simp
  have 3: "architecture_type r = Some ''Backend''"
    using analyze_files_fields(4) [OF r, unfolded server_py_frameworks server_py_languages]
    by (simp only: server_py_architecture)
  define d where "d = generate_detailed_analysis ord [server_py] (st_languages ?st)
                   (st_frameworks ?st) (st_databases ?st)"
  have 4: "detailed_analysis r = Some d" unfolding d_def by (rule analyze_files_fields(8) [OF r])
  have "api_files (da_backend d)
          = [ApiFile (name server_py) [Endpoint ''GET'' ''/users'', Endpoint ''GET'' ''/users'']]"
    unfolding d_def generate_detailed_analysis_def Let_def
    by (simp only: backend.simps detailed_analysis.simps server_py_bucket server_py_api_files)
  then have 5: "\<exists>a\<in>set (api_files (da_backend d)). Endpoint ''GET'' ''/users'' \<in> set (endpoints a)"
    by simp
  show ?thesis by (intro exI [of _ r] exI [of _ d] conjI r 1 2 3 4 5)
qed

theorem fastapi_server_scenario_witness:
  "set_order_ok id
   \<and> (\<exists>r d. analyze_files id id [server_py] = Inr r
           \<and> main_language r = Some ''Python''
           \<and> framework r = Some ''FastAPI''
           \<and> architecture_type r = Some ''Backend''
           \<and> detailed_analysis r = Some d
           \<and> (\<exists>a\<in>set (api_files (da_backend d)). Endpoint ''GET'' ''/users'' \<in> set (endpoints a)))"
  by (intro conjI set_order_ok_id fastapi_server_scenario [OF set_order_ok_id, of id])

end
